theory Spec2Isabelle
  imports Complex_Main "HOL-Library.AList"
begin

section \<open>Pitch deck assessment: the analysis pipeline of app.py\<close>

text \<open>
  The theory embeds the three pieces of \<^verbatim>\<open>app.py\<close> that carry logic:
  \<^verbatim>\<open>extract_text_from_file\<close>, \<^verbatim>\<open>analyze_component\<close> and the summary metrics
  computed in \<^verbatim>\<open>main\<close>.

  Conventions of the model.
  \<^item> A Python \<^verbatim>\<open>str\<close> is a \<^typ>\<open>string\<close>; every \<^typ>\<open>char\<close> stands for one code point
    below 256, so \<^const>\<open>length\<close> and slicing count code points as Python does. Text
    with code points from 256 on is outside the model.
  \<^item> A raised exception is the \<open>Inl\<close> of a sum; \<open>Inr\<close> is a normal return.
  \<^item> Library calls whose behaviour the program does not fix (the LLM client, the
    document readers) are parameters of the functions that call them.
  \<^item> Python integers are \<^typ>\<open>int\<close>. Interpreter resource limits (recursion depth,
    the cap on digits accepted by \<^verbatim>\<open>int()\<close>, memory) are not modelled.
\<close>

subsection \<open>Exceptions and JSON values\<close>

text \<open>
  An exception carries its class and the text \<^verbatim>\<open>str(e)\<close> gives. All classes here
  derive from \<^verbatim>\<open>Exception\<close>; only \<^verbatim>\<open>json.JSONDecodeError\<close> is caught by name.
\<close>

datatype exn =
    JSONDecodeError string
  | KeyError string
  | IndexError string
  | TypeError string
  | OtherError string string

fun exn_str :: "exn \<Rightarrow> string" where
  "exn_str (JSONDecodeError m) = m"
| "exn_str (KeyError m) = m"
| "exn_str (IndexError m) = m"
| "exn_str (TypeError m) = m"
| "exn_str (OtherError cls m) = m"

fun is_JSONDecodeError :: "exn \<Rightarrow> bool" where
  "is_JSONDecodeError (JSONDecodeError m) = True"
| "is_JSONDecodeError e = False"

text \<open>
  What \<^verbatim>\<open>json.loads\<close> can return. A JSON object becomes a Python dict: an association
  list with distinct keys, in insertion order. A number with a fraction or an exponent
  becomes a Python float; the model keeps its lexeme and does no float arithmetic.
\<close>

datatype json =
    JNull
  | JBool bool
  | JInt int
  | JFloat string
  | JString string
  | JArray "json list"
  | JObject "(string \<times> json) list"

text \<open>\<^verbatim>\<open>d[key]\<close> on a value: a missing key raises KeyError, a non-dict TypeError.\<close>

fun getitem :: "json \<Rightarrow> string \<Rightarrow> exn + json" where
  "getitem (JObject kvs) k =
     (case map_of kvs k of
        None \<Rightarrow> Inl (KeyError k)
      | Some v \<Rightarrow> Inr v)"
| "getitem v k = Inl (TypeError ''indices must be integers or the object is not subscriptable'')"

subsection \<open>String operations of Python used by the program\<close>

text \<open>
  \<^verbatim>\<open>str.isspace\<close> and the regular expression class \<^verbatim>\<open>\s\<close> agree; below 256 they
  hold of TAB..CR, FS..US, space, NEL (0x85) and NBSP (0xA0). \<^verbatim>\<open>\d\<close> holds of the
  decimal digits, below 256 only of 0..9.
\<close>

definition isspace :: "char \<Rightarrow> bool" where
  "isspace c =
     (let n = (of_char c :: nat)
      in (9 \<le> n \<and> n \<le> 13) \<or> (28 \<le> n \<and> n \<le> 32) \<or> n = 133 \<or> n = 160)"

definition isdigit :: "char \<Rightarrow> bool" where
  "isdigit c = (let n = (of_char c :: nat) in 48 \<le> n \<and> n \<le> 57)"

definition strip :: "string \<Rightarrow> string" where
  "strip s = rev (dropWhile isspace (rev (dropWhile isspace s)))"

definition startswith :: "string \<Rightarrow> string \<Rightarrow> bool" where
  "startswith s p = (take (length p) s = p)"

definition endswith :: "string \<Rightarrow> string \<Rightarrow> bool" where
  "endswith s p = (length p \<le> length s \<and> drop (length s - length p) s = p)"

text \<open>
  \<^verbatim>\<open>s[i:j]\<close>: a negative index counts from the end, and both ends are clipped to the
  string.
\<close>

definition clip_index :: "nat \<Rightarrow> int \<Rightarrow> nat" where
  "clip_index n i = (if i < 0 then nat (max 0 (int n + i)) else min n (nat i))"

definition slice :: "string \<Rightarrow> int \<Rightarrow> int \<Rightarrow> string" where
  "slice s i j =
     (let a = clip_index (length s) i; b = clip_index (length s) j
      in take (b - a) (drop a s))"

text \<open>\<^verbatim>\<open>int(digits)\<close> for a non-empty run of the digits 0..9.\<close>

definition digit_value :: "char \<Rightarrow> int" where
  "digit_value c = int (of_char c) - 48"

definition int_of_digits :: "string \<Rightarrow> int" where
  "int_of_digits ds = foldl (\<lambda>a c. 10 * a + digit_value c) 0 ds"

subsection \<open>The two regular expressions\<close>

text \<open>
  \<^verbatim>\<open>re.search(p, text)\<close> tries the pattern at position 0, 1, ... and returns the
  first match. Both patterns are sequences of a literal, greedy runs over a character
  class and single characters, where a run is always followed by a character outside
  its class (or by nothing); so giving characters back never turns a failed attempt
  into a match, and an attempt at one position is the function below. Each function
  returns group 1 of the match.
\<close>

definition match_literal :: "string \<Rightarrow> string \<Rightarrow> string option" where
  "match_literal p s = (if startswith s p then Some (drop (length p) s) else None)"

text \<open>The common head \<^verbatim>\<open>"key"\s*:\s*\<close>; returns the text after it.\<close>

definition match_key :: "string \<Rightarrow> string \<Rightarrow> string option" where
  "match_key key s =
     (case match_literal key s of
        None \<Rightarrow> None
      | Some r \<Rightarrow>
          (case dropWhile isspace r of
             [] \<Rightarrow> None
           | c # r' \<Rightarrow> if c = CHR '':'' then Some (dropWhile isspace r') else None))"

text \<open>\<^verbatim>\<open>"score"\s*:\s*(\d+)\<close> at the start of the text.\<close>

definition score_at :: "string \<Rightarrow> string option" where
  \<open>score_at s =
     (case match_key ''"score"'' s of
        None \<Rightarrow> None
      | Some r \<Rightarrow>
          (let ds = takeWhile isdigit r in if ds = [] then None else Some ds))\<close>

text \<open>\<^verbatim>\<open>"feedback"\s*:\s*"([^"]+)"\<close> at the start of the text.\<close>

definition feedback_at :: "string \<Rightarrow> string option" where
  \<open>feedback_at s =
     (case match_key ''"feedback"'' s of
        None \<Rightarrow> None
      | Some r \<Rightarrow>
          (case r of
             [] \<Rightarrow> None
           | q # r' \<Rightarrow>
               if q = CHR 0x22 then
                 (let body = takeWhile (\<lambda>c. c \<noteq> CHR 0x22) r';
                      rest = dropWhile (\<lambda>c. c \<noteq> CHR 0x22) r'
                  in if body \<noteq> [] \<and> rest \<noteq> [] then Some body else None)
               else None))\<close>

fun re_search :: "(string \<Rightarrow> 'a option) \<Rightarrow> string \<Rightarrow> 'a option" where
  "re_search m [] = m []"
| "re_search m (c # cs) =
     (case m (c # cs) of
        Some g \<Rightarrow> Some g
      | None \<Rightarrow> re_search m cs)"

definition score_match :: "string \<Rightarrow> string option" where
  "score_match response_text = re_search score_at response_text"

definition feedback_match :: "string \<Rightarrow> string option" where
  "feedback_match response_text = re_search feedback_at response_text"

subsection \<open>Interpreting the response (analyze-component, lines 140 to 176)\<close>

text \<open>
  The inner \<^verbatim>\<open>try\<close> block of \<^verbatim>\<open>analyze_component\<close>. \<open>loads\<close> is \<^verbatim>\<open>json.loads\<close>.
  An exception of \<open>loads\<close> other than JSONDecodeError leaves the block.
\<close>

definition json_candidate :: "string \<Rightarrow> string" where
  "json_candidate response_text =
     (let json_match = strip response_text
      in if startswith json_match ''```json'' \<and> endswith json_match ''```''
         then strip (slice json_match 7 (- 3))
         else json_match)"

definition parse_response :: "(string \<Rightarrow> exn + json) \<Rightarrow> string \<Rightarrow> exn + json" where
  "parse_response loads response_text =
     (let json_match = json_candidate response_text
      in if startswith json_match ''{'' \<and> endswith json_match ''}'' then
           (case loads json_match of
              Inr v \<Rightarrow> Inr v
            | Inl e \<Rightarrow>
                if is_JSONDecodeError e then
                  Inr (JObject
                    [(''score'',
                      JInt (case score_match response_text of
                              Some ds \<Rightarrow> int_of_digits ds
                            | None \<Rightarrow> 50)),
                     (''feedback'',
                      JString (case feedback_match response_text of
                                 Some fb \<Rightarrow> fb
                               | None \<Rightarrow> ''Failed to parse Claude's response.''))])
                else Inl e)
         else
           (case (score_match response_text, feedback_match response_text) of
              (Some ds, Some fb) \<Rightarrow>
                Inr (JObject [(''score'', JInt (int_of_digits ds)), (''feedback'', JString fb)])
            | _ \<Rightarrow>
                Inr (JObject
                  [(''score'', JInt 50),
                   (''feedback'',
                    JString
                      (''Analysis could not be processed properly. Here's the raw response: ''
                        @ slice response_text 0 200 @ ''...''))])))"

subsection \<open>analyze-component\<close>

text \<open>The prompt table and the response format, as the source writes them.\<close>

definition RESPONSE_FORMAT :: string where
  \<open>RESPONSE_FORMAT =
     ''\<newline>'' @
     ''Respond in JSON format with the following structure:\<newline>'' @
     ''{\<newline>'' @
     ''  "score": [numerical score between 0-100],\<newline>'' @
     ''  "feedback": "[detailed feedback with specific suggestions '' @
     ''for improvement]"\<newline>'' @
     ''}\<newline>''\<close>

definition BUSINESS_MODEL_CANVAS_PROMPTS :: "(string \<times> string) list" where
  "BUSINESS_MODEL_CANVAS_PROMPTS =
     [(''overview'',
       ''You are an expert pitch deck consultant. Analyze the provided '' @
       ''pitch deck and give an overall assessment of the entire business '' @
       ''model. \<newline>'' @
       ''    Focus on coherence between different components, overall '' @
       ''viability, and how compelling the business case is.\<newline>'' @
       ''    Provide a score between 0-100 and specific, actionable feedback.''),
      (''key_partners'',
       ''You are an expert pitch deck consultant. Analyze the provided '' @
       ''pitch deck and assess the Key Partners section.\<newline>'' @
       ''    Evaluate how well the pitch identifies strategic partners, '' @
       ''supplier relationships, and the mutual value creation with these '' @
       ''partners.\<newline>'' @
       ''    Provide a score between 0-100 and specific, actionable feedback.''),
      (''key_activities'',
       ''You are an expert pitch deck consultant. Analyze the provided '' @
       ''pitch deck and assess the Key Activities section.\<newline>'' @
       ''    Evaluate how well the pitch articulates the most important '' @
       ''activities the business must perform to make its business model '' @
       ''work.\<newline>'' @
       ''    Provide a score between 0-100 and specific, actionable feedback.''),
      (''key_resources'',
       ''You are an expert pitch deck consultant. Analyze the provided '' @
       ''pitch deck and assess the Key Resources section.\<newline>'' @
       ''    Evaluate how well the pitch describes the most important '' @
       ''assets required to make the business model work.\<newline>'' @
       ''    Provide a score between 0-100 and specific, actionable feedback.''),
      (''value_proposition'',
       ''You are an expert pitch deck consultant. Analyze the provided '' @
       ''pitch deck and assess the Value Proposition section.\<newline>'' @
       ''    Evaluate how well the pitch articulates the bundle of products '' @
       ''and services that create value for specific customer segments.\<newline>'' @
       ''    Provide a score between 0-100 and specific, actionable feedback.''),
      (''customer_relationships'',
       ''You are an expert pitch deck consultant. Analyze the provided '' @
       ''pitch deck and assess the Customer Relationships section.\<newline>'' @
       ''    Evaluate how well the pitch describes the types of relationships '' @
       ''the company establishes with specific customer segments.\<newline>'' @
       ''    Provide a score between 0-100 and specific, actionable feedback.''),
      (''channels'',
       ''You are an expert pitch deck consultant. Analyze the provided '' @
       ''pitch deck and assess the Channels section.\<newline>'' @
       ''    Evaluate how well the pitch describes how the company communicates '' @
       ''with and reaches its customer segments to deliver the value '' @
       ''proposition.\<newline>'' @
       ''    Provide a score between 0-100 and specific, actionable feedback.''),
      (''customer_segments'',
       ''You are an expert pitch deck consultant. Analyze the provided '' @
       ''pitch deck and assess the Customer Segments section.\<newline>'' @
       ''    Evaluate how well the pitch defines the different groups '' @
       ''of people or organizations the business aims to reach and serve.\<newline>'' @
       ''    Provide a score between 0-100 and specific, actionable feedback.''),
      (''cost_structure'',
       ''You are an expert pitch deck consultant. Analyze the provided '' @
       ''pitch deck and assess the Cost Structure section.\<newline>'' @
       ''    Evaluate how well the pitch describes all costs incurred '' @
       ''to operate the business model.\<newline>'' @
       ''    Provide a score between 0-100 and specific, actionable feedback.''),
      (''revenue_streams'',
       ''You are an expert pitch deck consultant. Analyze the provided '' @
       ''pitch deck and assess the Revenue Streams section.\<newline>'' @
       ''    Evaluate how well the pitch describes how the company generates '' @
       ''cash from each customer segment and the overall pricing strategy.\<newline>'' @
       ''    Provide a score between 0-100 and specific, actionable feedback.'')]"

text \<open>
  The request \<^verbatim>\<open>client.messages.create\<close> receives: the model, the output budget and
  the text of the single user message. The call is the parameter \<open>create\<close>; it raises
  or returns the texts of the content blocks of the message.
\<close>

record request =
  req_model :: string
  req_max_tokens :: nat
  req_content :: string

definition user_content :: "string \<Rightarrow> string \<Rightarrow> string" where
  "user_content prompt content =
     prompt @ ''\<newline>\<newline>Here is the pitch deck content to analyze:\<newline>\<newline>''
       @ content @ ''\<newline>\<newline>'' @ RESPONSE_FORMAT"

definition build_request :: "string \<Rightarrow> string \<Rightarrow> request" where
  "build_request prompt content =
     \<lparr>req_model = ''claude-3-opus-20240229'', req_max_tokens = 1000,
      req_content = user_content prompt content\<rparr>"

text \<open>\<^verbatim>\<open>message.content[0].text\<close>\<close>

definition first_text :: "string list \<Rightarrow> exn + string" where
  "first_text blocks =
     (case blocks of
        [] \<Rightarrow> Inl (IndexError ''list index out of range'')
      | b # bs \<Rightarrow> Inr b)"

text \<open>
  The function returns the messages passed to \<^verbatim>\<open>st.error\<close> and its outcome. The
  table lookup stands before the outer \<^verbatim>\<open>try\<close>, so its KeyError leaves the function;
  every exception raised inside is caught by \<^verbatim>\<open>except Exception\<close>.
\<close>

definition call_and_parse ::
  "(request \<Rightarrow> exn + string list) \<Rightarrow> (string \<Rightarrow> exn + json) \<Rightarrow> string \<Rightarrow> string \<Rightarrow> exn + json" where
  "call_and_parse create loads prompt content =
     (case create (build_request prompt content) of
        Inl e \<Rightarrow> Inl e
      | Inr blocks \<Rightarrow>
          (case first_text blocks of
             Inl e \<Rightarrow> Inl e
           | Inr response_text \<Rightarrow> parse_response loads response_text))"

definition analyze_component ::
  "(request \<Rightarrow> exn + string list) \<Rightarrow> (string \<Rightarrow> exn + json) \<Rightarrow> string \<Rightarrow> string
     \<Rightarrow> string list \<times> (exn + json)" where
  "analyze_component create loads component content =
     (case map_of BUSINESS_MODEL_CANVAS_PROMPTS component of
        None \<Rightarrow> ([], Inl (KeyError component))
      | Some prompt \<Rightarrow>
          (case call_and_parse create loads prompt content of
             Inr r \<Rightarrow> ([], Inr r)
           | Inl e \<Rightarrow>
               ([''Error analyzing '' @ component @ '': '' @ exn_str e],
                Inr (JObject
                  [(''score'', JInt 0),
                   (''feedback'',
                    JString (''Failed to analyze '' @ component @ ''. Please try again.''))]))))"

subsection \<open>The summary metrics of main (lines 257 to 270)\<close>

text \<open>
  A score as a number: an int, or a bool (Python's True is 1). A float score would need
  float arithmetic, which the model does not have; other values make \<^verbatim>\<open>sum\<close> raise
  TypeError.
\<close>

fun number_of :: "json \<Rightarrow> exn + int" where
  "number_of (JInt n) = Inr n"
| "number_of (JBool b) = Inr (if b then 1 else 0)"
| "number_of (JFloat x) = Inl (OtherError ''NotModelled'' ''arithmetic on a float score'')"
| "number_of v = Inl (TypeError ''unsupported operand type(s) for +'')"

definition score_of :: "json \<Rightarrow> exn + int" where
  "score_of component =
     (case getitem component ''score'' of
        Inl e \<Rightarrow> Inl e
      | Inr v \<Rightarrow> number_of v)"

fun scores_of :: "json list \<Rightarrow> exn + int list" where
  "scores_of [] = Inr []"
| "scores_of (component # rest) =
     (case score_of component of
        Inl e \<Rightarrow> Inl e
      | Inr x \<Rightarrow>
          (case scores_of rest of
             Inl e \<Rightarrow> Inl e
           | Inr xs \<Rightarrow> Inr (x # xs)))"

record summary =
  avg_score :: rat
  strengths :: nat
  weaknesses :: nat

text \<open>
  \<open>results\<close> is the dict of the session, as its items. The dashboard is drawn only for
  a non-empty dict (\<open>None\<close>: nothing is computed). The mean is the exact quotient; Python
  rounds it to the nearest float.
\<close>

definition summarize :: "(string \<times> json) list \<Rightarrow> (exn + summary) option" where
  "summarize results =
     (if results = [] then None
      else Some
        (case scores_of (map snd results) of
           Inl e \<Rightarrow> Inl e
         | Inr xs \<Rightarrow>
             Inr \<lparr>avg_score = of_int (sum_list xs) / of_nat (length results),
                  strengths = length (filter (\<lambda>x. 80 \<le> x) xs),
                  weaknesses = length (filter (\<lambda>x. x < 70) xs)\<rparr>))"

subsection \<open>extract-text-from-file\<close>

text \<open>
  \<^verbatim>\<open>os.path.splitext\<close> (the POSIX one): the extension starts at the last dot of the
  last path component, unless only dots stand before it in that component.
\<close>

definition rfind :: "string \<Rightarrow> char \<Rightarrow> int" where
  "rfind p c =
     (if c \<in> set p then int (length p) - 1 - int (length (takeWhile (\<lambda>x. x \<noteq> c) (rev p)))
      else - 1)"

definition splitext :: "string \<Rightarrow> string \<times> string" where
  "splitext p =
     (let sepIndex = rfind p (CHR ''/''); dotIndex = rfind p (CHR ''.'')
      in if dotIndex > sepIndex
            \<and> list_ex (\<lambda>c. c \<noteq> CHR ''.'')
                (take (nat (dotIndex - (sepIndex + 1))) (drop (nat (sepIndex + 1)) p))
         then (take (nat dotIndex) p, drop (nat dotIndex) p)
         else (p, []))"

text \<open>\<^verbatim>\<open>str.lower\<close> on code points below 256: A..Z and the accented capitals.\<close>

definition lower_char :: "char \<Rightarrow> char" where
  "lower_char c =
     (let n = (of_char c :: nat)
      in if (65 \<le> n \<and> n \<le> 90) \<or> (192 \<le> n \<and> n \<le> 222 \<and> n \<noteq> 215)
         then char_of (n + 32) else c)"

definition lower :: "string \<Rightarrow> string" where
  "lower s = map lower_char s"

text \<open>\<^verbatim>\<open>str(n)\<close> for a natural number.\<close>

fun str_nat :: "nat \<Rightarrow> string" where
  "str_nat n =
     (if n < 10 then [char_of (48 + n)]
      else str_nat (n div 10) @ [char_of (48 + n mod 10)])"

declare str_nat.simps [simp del]

text \<open>
  The uploaded file and the document libraries. A reader raises or returns what the
  loops of the source read from it: for a PDF the outcome of \<^verbatim>\<open>extract_text()\<close> of each
  page, for a presentation the shapes of each slide (the text of a shape, if it has the
  attribute), for a document the text of each paragraph. The temporary file only
  carries the bytes to the readers and is removed in \<^verbatim>\<open>finally\<close>; failures of the file
  system are not modelled.
\<close>

record uploaded_file =
  file_name :: string
  file_value :: string

record readers =
  PdfReader :: "string \<Rightarrow> exn + (exn + string) list"
  Presentation :: "string \<Rightarrow> exn + string option list list"
  Document :: "string \<Rightarrow> exn + string list"

fun pdf_pages :: "nat \<Rightarrow> (exn + string) list \<Rightarrow> string \<Rightarrow> exn + string" where
  "pdf_pages page_num [] extracted_text = Inr extracted_text"
| "pdf_pages page_num (page # pages) extracted_text =
     (case page of
        Inl e \<Rightarrow> Inl e
      | Inr t \<Rightarrow>
          pdf_pages (page_num + 1) pages
            (extracted_text @ ''\<newline>--- Page '' @ str_nat (page_num + 1) @ '' ---\<newline>'' @ t))"

fun slide_shapes :: "string option list \<Rightarrow> string \<Rightarrow> string" where
  "slide_shapes [] extracted_text = extracted_text"
| "slide_shapes (shape # shapes) extracted_text =
     slide_shapes shapes
       (case shape of
          None \<Rightarrow> extracted_text
        | Some t \<Rightarrow> if t \<noteq> [] then extracted_text @ t @ ''\<newline>'' else extracted_text)"

fun pptx_slides :: "nat \<Rightarrow> string option list list \<Rightarrow> string \<Rightarrow> string" where
  "pptx_slides slide_num [] extracted_text = extracted_text"
| "pptx_slides slide_num (slide # slides) extracted_text =
     pptx_slides (slide_num + 1) slides
       (slide_shapes slide
          (extracted_text @ ''\<newline>--- Slide '' @ str_nat (slide_num + 1) @ '' ---\<newline>''))"

fun docx_paragraphs :: "string list \<Rightarrow> string \<Rightarrow> string" where
  "docx_paragraphs [] extracted_text = extracted_text"
| "docx_paragraphs (para # paras) extracted_text =
     docx_paragraphs paras (extracted_text @ para @ ''\<newline>'')"

definition extract_text_from_file :: "readers \<Rightarrow> uploaded_file \<Rightarrow> exn + string" where
  "extract_text_from_file lib uploaded =
     (let file_extension = lower (snd (splitext (file_name uploaded)))
      in if file_extension = ''.pdf'' then
           (case PdfReader lib (file_value uploaded) of
              Inl e \<Rightarrow> Inl e
            | Inr pages \<Rightarrow> pdf_pages 0 pages [])
         else if file_extension = ''.pptx'' then
           (case Presentation lib (file_value uploaded) of
              Inl e \<Rightarrow> Inl e
            | Inr slides \<Rightarrow> Inr (pptx_slides 0 slides []))
         else if file_extension = ''.docx'' then
           (case Document lib (file_value uploaded) of
              Inl e \<Rightarrow> Inl e
            | Inr paras \<Rightarrow> Inr (docx_paragraphs paras []))
         else if file_extension = ''.ppt'' then
           Inr (''PPT format has limited extraction capabilities. ''
                  @ ''Consider converting to PPTX for better results.'')
         else Inr (''Unsupported file format: '' @ file_extension))"

subsection \<open>A model of json.loads\<close>

text \<open>
  \<^verbatim>\<open>json.loads\<close> belongs to Python's standard library. The general theorems below
  hold for any decoder \<open>loads\<close>; the concrete examples use \<open>json_loads\<close>, a model of
  the documented behaviour of the default decoder on a \<^verbatim>\<open>str\<close>: the JSON grammar
  (whitespace is space, TAB, LF, CR), the extra constants NaN, Infinity and -Infinity,
  strict strings (no raw control character), integers as Python ints, other numbers as
  floats, objects as dicts where a repeated key keeps its first position and its last
  value, and nothing but whitespace after the value. Every syntax error is a
  JSONDecodeError; its message and position are not modelled.

  The model first splits the text into tokens and then runs a stack machine over them.
  An escape \<^verbatim>\<open>\uXXXX\<close> of a code point from 256 on has no \<^typ>\<open>char\<close>; the model
  reports it as its own exception instead of inventing a character.
\<close>

definition decode_error :: exn where
  "decode_error = JSONDecodeError ''the text is not valid JSON''"

definition unrepresentable :: exn where
  "unrepresentable = OtherError ''Unrepresentable'' ''a code point from 256 on is outside the model''"

datatype token =
    TLBrace | TRBrace | TLBracket | TRBracket | TComma | TColon
  | TString string
  | TValue json

definition is_json_ws :: "char \<Rightarrow> bool" where
  "is_json_ws c = (c = CHR '' '' \<or> c = CHR 0x09 \<or> c = CHR 0x0A \<or> c = CHR 0x0D)"

definition hex_value :: "char \<Rightarrow> nat option" where
  "hex_value c =
     (let n = (of_char c :: nat)
      in if 48 \<le> n \<and> n \<le> 57 then Some (n - 48)
         else if 65 \<le> n \<and> n \<le> 70 then Some (n - 55)
         else if 97 \<le> n \<and> n \<le> 102 then Some (n - 87)
         else None)"

definition hex4 :: "char \<Rightarrow> char \<Rightarrow> char \<Rightarrow> char \<Rightarrow> nat option" where
  "hex4 a b c d =
     (case (hex_value a, hex_value b, hex_value c, hex_value d) of
        (Some w, Some x, Some y, Some z) \<Rightarrow> Some (((w * 16 + x) * 16 + y) * 16 + z)
      | _ \<Rightarrow> None)"

definition unescape :: "char \<Rightarrow> char option" where
  "unescape e =
     (if e = CHR 0x22 then Some (CHR 0x22)
      else if e = CHR 0x5C then Some (CHR 0x5C)
      else if e = CHR ''/'' then Some (CHR ''/'')
      else if e = CHR ''b'' then Some (CHR 0x08)
      else if e = CHR ''f'' then Some (CHR 0x0C)
      else if e = CHR ''n'' then Some (CHR 0x0A)
      else if e = CHR ''r'' then Some (CHR 0x0D)
      else if e = CHR ''t'' then Some (CHR 0x09)
      else None)"

fun scan_string :: "string \<Rightarrow> string \<Rightarrow> exn + (string \<times> string)" where
  "scan_string acc [] = Inl decode_error"
| "scan_string acc (c # cs) =
     (if c = CHR 0x22 then Inr (rev acc, cs)
      else if c = CHR 0x5C then
        (case cs of
           [] \<Rightarrow> Inl decode_error
         | e # cs' \<Rightarrow>
             if e = CHR ''u'' then
               (case cs' of
                  h1 # h2 # h3 # h4 # cs'' \<Rightarrow>
                    (case hex4 h1 h2 h3 h4 of
                       None \<Rightarrow> Inl decode_error
                     | Some n \<Rightarrow>
                         if n < 256 then scan_string (char_of n # acc) cs''
                         else Inl unrepresentable)
                | _ \<Rightarrow> Inl decode_error)
             else
               (case unescape e of
                  None \<Rightarrow> Inl decode_error
                | Some x \<Rightarrow> scan_string (x # acc) cs'))
      else if (of_char c :: nat) < 32 then Inl decode_error
      else scan_string (c # acc) cs)"

definition scan_int_part :: "string \<Rightarrow> (string \<times> string) option" where
  "scan_int_part s =
     (case s of
        [] \<Rightarrow> None
      | d # r \<Rightarrow>
          if d = CHR ''0'' then Some ([d], r)
          else if isdigit d then Some (d # takeWhile isdigit r, dropWhile isdigit r)
          else None)"

definition scan_frac :: "string \<Rightarrow> string \<times> string" where
  "scan_frac s =
     (case s of
        [] \<Rightarrow> ([], s)
      | p # r \<Rightarrow>
          if p = CHR ''.'' \<and> takeWhile isdigit r \<noteq> []
          then (p # takeWhile isdigit r, dropWhile isdigit r)
          else ([], s))"

definition scan_exp :: "string \<Rightarrow> string \<times> string" where
  "scan_exp s =
     (case s of
        [] \<Rightarrow> ([], s)
      | e # r \<Rightarrow>
          if e = CHR ''e'' \<or> e = CHR ''E'' then
            (let (sg, r') =
                   (case r of
                      [] \<Rightarrow> ([], r)
                    | g # r'' \<Rightarrow> if g = CHR ''+'' \<or> g = CHR ''-'' then ([g], r'') else ([], r))
             in if takeWhile isdigit r' \<noteq> []
                then (e # sg @ takeWhile isdigit r', dropWhile isdigit r')
                else ([], s))
          else ([], s))"

definition scan_number :: "string \<Rightarrow> (json \<times> string) option" where
  "scan_number s =
     (let (sg, r0) =
            (case s of
               [] \<Rightarrow> ([], s)
             | m # r \<Rightarrow> if m = CHR ''-'' then ([m], r) else ([], s))
      in case scan_int_part r0 of
           None \<Rightarrow> None
         | Some (ds, r1) \<Rightarrow>
             (let (fr, r2) = scan_frac r1; (ex, r3) = scan_exp r2
              in if fr = [] \<and> ex = []
                 then Some (JInt (if sg = [] then int_of_digits ds else - int_of_digits ds), r3)
                 else Some (JFloat (sg @ ds @ fr @ ex), r3)))"

definition literals :: "(string \<times> json) list" where
  "literals =
     [(''null'', JNull), (''true'', JBool True), (''false'', JBool False),
      (''NaN'', JFloat ''NaN''), (''Infinity'', JFloat ''Infinity''),
      (''-Infinity'', JFloat ''-Infinity'')]"

fun scan_literal :: "(string \<times> json) list \<Rightarrow> string \<Rightarrow> (json \<times> string) option" where
  "scan_literal [] s = None"
| "scan_literal ((w, v) # ls) s =
     (if startswith s w then Some (v, drop (length w) s) else scan_literal ls s)"

definition scan_atom :: "string \<Rightarrow> (json \<times> string) option" where
  "scan_atom s =
     (case scan_literal literals s of
        Some r \<Rightarrow> Some r
      | None \<Rightarrow> scan_number s)"

definition punctuation :: "char \<Rightarrow> token option" where
  "punctuation c =
     (if c = CHR ''{'' then Some TLBrace
      else if c = CHR ''}'' then Some TRBrace
      else if c = CHR ''['' then Some TLBracket
      else if c = CHR '']'' then Some TRBracket
      else if c = CHR '','' then Some TComma
      else if c = CHR '':'' then Some TColon
      else None)"


lemma scan_string_shorter: "scan_string acc cs = Inr (s, rest) \<Longrightarrow> length rest < Suc (length cs)"
proof (induction acc cs arbitrary: s rest rule: scan_string.induct)
  case (1 acc)
  then show ?case by simp
next
  case (2 acc c cs)
  show ?case
  proof (cases "c = CHR 0x22")
    case True
    with 2 show ?thesis by simp
  next
    case nq: False
    show ?thesis
    proof (cases "c = CHR 0x5C")
      case False
      with nq 2 show ?thesis by (fastforce split: if_splits)
    next
      case bs: True
      show ?thesis
      proof (cases cs)
        case Nil
        with nq bs 2 show ?thesis by simp
      next
        case (Cons e cs')
        show ?thesis
        proof (cases "e = CHR ''u''")
          case False
          with nq bs Cons 2 show ?thesis by (fastforce split: option.splits)
        next
          case True
          with nq bs Cons 2 show ?thesis
            by (fastforce split: option.splits list.splits if_splits)
        qed
      qed
    qed
  qed
qed


lemma scan_literal_shorter:
  "scan_literal ls s = Some (v, rest) \<Longrightarrow> [] \<notin> fst ` set ls \<Longrightarrow> length rest < length s"
proof (induction ls s rule: scan_literal.induct)
  case (1 s)
  then show ?case by simp
next
  case (2 w v' ls s)
  show ?case
  proof (cases "startswith s w")
    case True
    have "w \<noteq> []" using 2(3) by auto
    moreover have "s \<noteq> []" using True \<open>w \<noteq> []\<close> by (auto simp: startswith_def)
    moreover have "rest = drop (length w) s" using 2(2) True by simp
    ultimately show ?thesis by simp
  next
    case False
    with 2 show ?thesis by simp
  qed
qed

lemma scan_int_part_shorter: "scan_int_part s = Some (ds, r) \<Longrightarrow> length r < length s"
  by (auto simp: scan_int_part_def length_dropWhile_le less_Suc_eq_le split: list.splits if_splits)

lemma scan_frac_shorter: "scan_frac s = (fr, r) \<Longrightarrow> length r \<le> length s"
  by (auto simp: scan_frac_def length_dropWhile_le le_SucI split: list.splits if_splits)

lemma scan_exp_shorter: "scan_exp s = (ex, r) \<Longrightarrow> length r \<le> length s"
  by (auto simp: scan_exp_def Let_def length_dropWhile_le le_SucI
      intro: order_trans [OF length_dropWhile_le]
      split: list.splits if_splits prod.splits)

lemma scan_number_shorter: "scan_number s = Some (v, rest) \<Longrightarrow> length rest < length s"
proof -
  assume a: "scan_number s = Some (v, rest)"
  obtain sg r0 where sg: "(case s of [] \<Rightarrow> ([], s) | m # r \<Rightarrow> if m = CHR ''-'' then ([m], r) else ([], s)) = (sg, r0)"
    by (cases "(case s of [] \<Rightarrow> ([], s) | m # r \<Rightarrow> if m = CHR ''-'' then ([m], r) else ([], s))") auto
  then have l0: "length r0 \<le> length s" by (auto split: list.splits if_splits)
  from a sg obtain ds r1 where ip: "scan_int_part r0 = Some (ds, r1)"
    by (auto simp: scan_number_def split: option.splits)
  obtain fr r2 where fr: "scan_frac r1 = (fr, r2)" by (cases "scan_frac r1") auto
  obtain ex r3 where ex: "scan_exp r2 = (ex, r3)" by (cases "scan_exp r2") auto
  from a sg ip fr ex have "rest = r3"
    by (auto simp: scan_number_def split: if_splits)
  with l0 scan_int_part_shorter [OF ip] scan_frac_shorter [OF fr] scan_exp_shorter [OF ex]
  show ?thesis by simp
qed

lemma scan_atom_shorter: "scan_atom s = Some (v, rest) \<Longrightarrow> length rest < length s"
proof (cases "scan_literal literals s")
  case None
  then show "scan_atom s = Some (v, rest) \<Longrightarrow> length rest < length s"
    by (auto simp: scan_atom_def dest: scan_number_shorter)
next
  case (Some r)
  have "[] \<notin> fst ` set literals" by (simp add: literals_def)
  with Some show "scan_atom s = Some (v, rest) \<Longrightarrow> length rest < length s"
    by (auto simp: scan_atom_def dest: scan_literal_shorter)
qed

function tokenize :: "string \<Rightarrow> exn + token list" where
  "tokenize [] = Inr []"
| "tokenize (c # cs) =
     (if is_json_ws c then tokenize cs
      else case punctuation c of
        Some t \<Rightarrow> map_sum id (Cons t) (tokenize cs)
      | None \<Rightarrow>
          if c = CHR 0x22 then
            (case scan_string [] cs of
               Inl e \<Rightarrow> Inl e
             | Inr (s, rest) \<Rightarrow> map_sum id (Cons (TString s)) (tokenize rest))
          else
            (case scan_atom (c # cs) of
               None \<Rightarrow> Inl decode_error
             | Some (v, rest) \<Rightarrow> map_sum id (Cons (TValue v)) (tokenize rest)))"
  by pat_completeness auto
termination
  by (relation "measure length") (auto dest: scan_string_shorter scan_atom_shorter)

text \<open>
  The parser: one step per token. \<open>Done v\<close> says that the value \<open>v\<close> is complete; the
  top frame then says what may follow it, and with no frame left nothing may.
\<close>

definition dict_of_pairs :: "(string \<times> json) list \<Rightarrow> (string \<times> json) list" where
  "dict_of_pairs ps = fold (\<lambda>(k, v). AList.update k v) ps []"

datatype frame =
    InArray "json list"
  | InObject "(string \<times> json) list"
  | InMember "(string \<times> json) list" string

datatype mode = Value | ValueOrEnd | KeyOrEnd | Key | Colon | Done json

definition begin_value :: "frame list \<Rightarrow> token \<Rightarrow> (mode \<times> frame list) option" where
  "begin_value st t =
     (case t of
        TValue v \<Rightarrow> Some (Done v, st)
      | TString s \<Rightarrow> Some (Done (JString s), st)
      | TLBracket \<Rightarrow> Some (ValueOrEnd, InArray [] # st)
      | TLBrace \<Rightarrow> Some (KeyOrEnd, InObject [] # st)
      | _ \<Rightarrow> None)"

definition begin_member :: "frame list \<Rightarrow> token \<Rightarrow> (mode \<times> frame list) option" where
  "begin_member st t =
     (case (st, t) of
        (InObject ps # st', TString k) \<Rightarrow> Some (Colon, InMember ps k # st')
      | _ \<Rightarrow> None)"

definition end_array :: "json list \<Rightarrow> frame list \<Rightarrow> (mode \<times> frame list) option" where
  "end_array es st = Some (Done (JArray (rev es)), st)"

definition end_object :: "(string \<times> json) list \<Rightarrow> frame list \<Rightarrow> (mode \<times> frame list) option" where
  "end_object ps st = Some (Done (JObject (dict_of_pairs (rev ps))), st)"

definition step :: "mode \<times> frame list \<Rightarrow> token \<Rightarrow> (mode \<times> frame list) option" where
  "step ms t =
     (case ms of
        (Value, st) \<Rightarrow> begin_value st t
      | (ValueOrEnd, st) \<Rightarrow>
          (case (st, t) of
             (InArray es # st', TRBracket) \<Rightarrow> end_array es st'
           | _ \<Rightarrow> begin_value st t)
      | (KeyOrEnd, st) \<Rightarrow>
          (case (st, t) of
             (InObject ps # st', TRBrace) \<Rightarrow> end_object ps st'
           | _ \<Rightarrow> begin_member st t)
      | (Key, st) \<Rightarrow> begin_member st t
      | (Colon, st) \<Rightarrow> (case t of TColon \<Rightarrow> Some (Value, st) | _ \<Rightarrow> None)
      | (Done v, st) \<Rightarrow>
          (case (st, t) of
             (InArray es # st', TComma) \<Rightarrow> Some (Value, InArray (v # es) # st')
           | (InArray es # st', TRBracket) \<Rightarrow> end_array (v # es) st'
           | (InMember ps k # st', TComma) \<Rightarrow> Some (Key, InObject ((k, v) # ps) # st')
           | (InMember ps k # st', TRBrace) \<Rightarrow> end_object ((k, v) # ps) st'
           | _ \<Rightarrow> None))"

fun run :: "mode \<times> frame list \<Rightarrow> token list \<Rightarrow> (mode \<times> frame list) option" where
  "run ms [] = Some ms"
| "run ms (t # ts) =
     (case step ms t of
        None \<Rightarrow> None
      | Some ms' \<Rightarrow> run ms' ts)"

definition json_loads :: "string \<Rightarrow> exn + json" where
  "json_loads s =
     (case tokenize s of
        Inl e \<Rightarrow> Inl e
      | Inr ts \<Rightarrow>
          (case run (Value, []) ts of
             Some (Done v, []) \<Rightarrow> Inr v
           | _ \<Rightarrow> Inl decode_error))"

section \<open>Notions used to state the properties\<close>

text \<open>
  \<open>braced\<close> is the test of line 147. \<open>count_scores P\<close> counts the components of a
  report whose score is a number that satisfies \<open>P\<close>. \<open>components\<close> is the list of
  line 215. \<open>example_report\<close> has the scores 95, 85, 72, 65, 50, 90, 60, 78, 82, 55.
  \<open>timeout_client\<close> is an LLM client whose call always times out, and
  \<open>canned_client t\<close> one that answers every request with the one text block \<open>t\<close>.
\<close>

definition braced :: "string \<Rightarrow> bool" where
  "braced json_match = (startswith json_match ''{'' \<and> endswith json_match ''}'')"

definition count_scores :: "(int \<Rightarrow> bool) \<Rightarrow> (string \<times> json) list \<Rightarrow> nat" where
  "count_scores P results =
     length (filter (\<lambda>kv. case score_of (snd kv) of Inl e \<Rightarrow> False | Inr x \<Rightarrow> P x) results)"

definition components :: "string list" where
  "components = map fst BUSINESS_MODEL_CANVAS_PROMPTS"

definition example_report :: "(string \<times> json) list" where
  "example_report =
     zip components
       (map (\<lambda>x. JObject [(''score'', JInt x), (''feedback'', JString ''ok'')])
          [95, 85, 72, 65, 50, 90, 60, 78, 82, 55])"

definition timeout_client :: "request \<Rightarrow> exn + string list" where
  "timeout_client req = Inl (OtherError ''APITimeoutError'' ''Request timed out.'')"

definition canned_client :: "string \<Rightarrow> request \<Rightarrow> exn + string list" where
  "canned_client response_text req = Inr [response_text]"

text \<open>
  \<open>extension_of\<close> is the \<^verbatim>\<open>file_extension\<close> of line 78. \<open>failing_readers\<close> are document
  libraries that reject the bytes they are given, as they do for an empty file;
  \<open>sample_readers\<close> read a small document of each kind, and \<open>broken_page_readers\<close> a
  PDF whose second page cannot be read.
\<close>

definition extension_of :: "uploaded_file \<Rightarrow> string" where
  "extension_of uploaded = lower (snd (splitext (file_name uploaded)))"

definition failing_readers :: readers where
  "failing_readers =
     \<lparr>PdfReader = (\<lambda>b. Inl (OtherError ''EmptyFileError'' ''Cannot read an empty file'')),
      Presentation = (\<lambda>b. Inl (OtherError ''PackageNotFoundError'' ''Package not found'')),
      Document = (\<lambda>b. Inl (OtherError ''PackageNotFoundError'' ''Package not found''))\<rparr>"

definition sample_readers :: readers where
  "sample_readers =
     \<lparr>PdfReader = (\<lambda>b. Inr [Inr ''Problem'', Inr [], Inr ''Team'']),
      Presentation = (\<lambda>b. Inr [[Some ''Title'', None, Some [], Some ''Vision''], []]),
      Document = (\<lambda>b. Inr [''Summary'', [], ''Market''])\<rparr>"

definition broken_page_readers :: readers where
  "broken_page_readers =
     \<lparr>PdfReader = (\<lambda>b. Inr [Inr ''Problem'', Inl (OtherError ''PdfReadError'' ''bad page''),
                              Inr ''Team'']),
      Presentation = (\<lambda>b. Inr []),
      Document = (\<lambda>b. Inr [])\<rparr>"

text \<open>
  \<open>score_in_range\<close> says that a record has an integer score from 0 to 100.
  \<open>occurs_in p s\<close> says that \<open>p\<close> is a contiguous part of \<open>s\<close>.
  \<open>fenced w0 w1 r w2 w3\<close> is the text \<open>r\<close> inside a json fence, with the runs \<open>w0\<close> to
  \<open>w3\<close> around the fence marks. \<open>long_reply\<close> is a reply of 330 characters.
  \<open>decimal ds\<close> is the number that the digits \<open>ds\<close> denote in base ten, by the place
  of each digit.
\<close>

definition score_in_range :: "json \<Rightarrow> bool" where
  "score_in_range r =
     (case getitem r ''score'' of
        Inr (JInt n) \<Rightarrow> 0 \<le> n \<and> n \<le> 100
      | _ \<Rightarrow> False)"

definition occurs_in :: "string \<Rightarrow> string \<Rightarrow> bool" where
  "occurs_in p s = list_ex (\<lambda>i. startswith (drop i s) p) [0..<Suc (length s)]"

definition fenced :: "string \<Rightarrow> string \<Rightarrow> string \<Rightarrow> string \<Rightarrow> string \<Rightarrow> string" where
  "fenced w0 w1 r w2 w3 = w0 @ ''```json'' @ w1 @ r @ w2 @ ''```'' @ w3"

definition long_reply :: string where
  "long_reply = concat (replicate 30 ''No rating. '')"

definition decimal :: "string \<Rightarrow> int" where
  "decimal ds = (\<Sum>i<length ds. (int (of_char (ds ! i)) - 48) * 10 ^ (length ds - Suc i))"

section \<open>Properties\<close>

subsection \<open>Auxiliary facts\<close>

lemma parse_response_direct:
  "braced (json_candidate t) \<Longrightarrow> loads (json_candidate t) = Inr v \<Longrightarrow> parse_response loads t = Inr v"
  by (simp add: parse_response_def braced_def)

lemma scores_of_length: "scores_of rs = Inr xs \<Longrightarrow> length xs = length rs"
  by (induction rs arbitrary: xs) (auto split: sum.splits)

lemma scores_of_filter:
  "scores_of (map snd results) = Inr xs \<Longrightarrow>
   length (filter P xs) = count_scores P results"
proof (induction results arbitrary: xs)
  case Nil
  then show ?case by (simp add: count_scores_def)
next
  case (Cons kv results)
  then show ?case by (auto simp: count_scores_def split: sum.splits)
qed

lemma three_way:
  "length (filter (\<lambda>x. 80 \<le> x) xs) + length (filter (\<lambda>x. x < 70) xs)
     + length (filter (\<lambda>x. 70 \<le> x \<and> x < 80) xs) = length (xs :: int list)"
  by (induction xs) auto

lemma analyze_component_caught:
  "map_of BUSINESS_MODEL_CANVAS_PROMPTS component = Some prompt \<Longrightarrow>
   call_and_parse create loads prompt content = Inl e \<Longrightarrow>
   analyze_component create loads component content
     = ([''Error analyzing '' @ component @ '': '' @ exn_str e],
        Inr (JObject [(''score'', JInt 0),
                      (''feedback'',
                       JString (''Failed to analyze '' @ component @ ''. Please try again.''))]))"
  by (simp add: analyze_component_def)

lemma re_search_found: "re_search m t = Some g \<Longrightarrow> \<exists>pre s. t = pre @ s \<and> m s = Some g"
proof (induction t)
  case Nil
  then show ?case by simp
next
  case (Cons c cs)
  show ?case
  proof (cases "m (c # cs)")
    case (Some g')
    with Cons.prems have "m (c # cs) = Some g" by simp
    then show ?thesis by (metis append_Nil)
  next
    case None
    with Cons.prems have "re_search m cs = Some g" by simp
    from Cons.IH [OF this] obtain pre s where "cs = pre @ s" "m s = Some g" by blast
    then have "c # cs = (c # pre) @ s" by simp
    with \<open>m s = Some g\<close> show ?thesis by blast
  qed
qed

lemma re_search_embedded: "m s = Some g \<Longrightarrow> \<exists>g'. re_search m (pre @ s) = Some g'"
proof (induction pre)
  case Nil
  then show ?case by (cases s) auto
next
  case (Cons c pre)
  then show ?case by (cases "m (c # pre @ s)") auto
qed

lemma score_at_digits: "score_at s = Some ds \<Longrightarrow> ds \<noteq> [] \<and> (\<forall>c\<in>set ds. isdigit c)"
  by (auto simp: score_at_def Let_def split: option.splits if_splits dest: set_takeWhileD)

lemma score_match_digits:
  "score_match t = Some ds \<Longrightarrow> ds \<noteq> [] \<and> (\<forall>c\<in>set ds. isdigit c)"
  unfolding score_match_def by (blast dest: re_search_found score_at_digits)

lemma digit_value_nonneg: "isdigit c \<Longrightarrow> 0 \<le> digit_value c"
  by (simp add: isdigit_def digit_value_def Let_def)

lemma foldl_digits_nonneg:
  "\<forall>c\<in>set ds. isdigit c \<Longrightarrow> 0 \<le> a \<Longrightarrow> 0 \<le> foldl (\<lambda>a c. 10 * a + digit_value c) a ds"
proof (induction ds arbitrary: a)
  case Nil
  then show ?case by simp
next
  case (Cons d ds)
  have "0 \<le> 10 * a + digit_value d"
    using Cons.prems digit_value_nonneg [of d] by simp
  with Cons show ?case by simp
qed

lemma int_of_digits_nonneg: "\<forall>c\<in>set ds. isdigit c \<Longrightarrow> 0 \<le> int_of_digits ds"
  by (simp add: int_of_digits_def foldl_digits_nonneg)

lemma slice_prefix: "slice s 0 (int n) = take n s"
  by (simp add: slice_def clip_index_def Let_def min_def)

lemma strip_append_left: "\<forall>c\<in>set w. isspace c \<Longrightarrow> strip (w @ s) = strip s"
  by (simp add: strip_def dropWhile_append2)

lemma strip_append_right:
  assumes "\<forall>c\<in>set w. isspace c"
  shows "strip (s @ w) = strip s"
proof (cases "\<forall>c\<in>set s. isspace c")
  case True
  with assms have a: "dropWhile isspace (s @ w) = []"
    by (auto simp: dropWhile_eq_Nil_conv)
  from True have b: "dropWhile isspace s = []"
    by (simp add: dropWhile_eq_Nil_conv)
  show ?thesis unfolding strip_def a b by simp
next
  case False
  then obtain x where "x \<in> set s" "\<not> isspace x" by blast
  then have "dropWhile isspace (s @ w) = dropWhile isspace s @ w"
    by (rule dropWhile_append1)
  moreover have "dropWhile isspace (rev w @ ys) = dropWhile isspace ys" for ys
    by (rule dropWhile_append2) (use assms in auto)
  ultimately show ?thesis by (simp add: strip_def)
qed

lemma strip_id:
  assumes "s \<noteq> []" and "\<not> isspace (hd s)" and "\<not> isspace (last s)"
  shows "strip s = s"
proof -
  have a: "dropWhile isspace s = s"
    using assms(1,2) by (cases s) auto
  have "rev s \<noteq> []" "\<not> isspace (hd (rev s))"
    using assms(1,3) by (simp_all add: hd_rev)
  then have "dropWhile isspace (rev s) = rev s"
    by (cases "rev s") auto
  with a show ?thesis by (simp add: strip_def)
qed

lemma strip_fenced:
  assumes "\<forall>c\<in>set (w0 @ w3). isspace c"
  shows "strip (fenced w0 w1 r w2 w3) = ''```json'' @ (w1 @ r @ w2) @ ''```''"
proof -
  have "strip (fenced w0 w1 r w2 w3) = strip ((''```json'' @ (w1 @ r @ w2) @ ''```'') @ w3)"
    using assms strip_append_left [of w0] by (simp add: fenced_def)
  also have "\<dots> = strip (''```json'' @ (w1 @ r @ w2) @ ''```'')"
    using assms by (intro strip_append_right) auto
  also have "\<dots> = ''```json'' @ (w1 @ r @ w2) @ ''```''"
    by (rule strip_id) (simp_all add: isspace_def)
  finally show ?thesis .
qed

lemma slice_fence: "slice (''```json'' @ x @ ''```'') 7 (- 3) = x"
  by (simp add: slice_def clip_index_def Let_def)

lemma fence_marks:
  "startswith (''```json'' @ x @ ''```'') ''```json''"
  "endswith (''```json'' @ x @ ''```'') ''```''"
  by (simp_all add: startswith_def endswith_def)

lemma json_candidate_fenced:
  assumes "\<forall>c\<in>set (w0 @ w1 @ w2 @ w3). isspace c"
  shows "json_candidate (fenced w0 w1 r w2 w3) = strip r"
proof -
  have "strip (fenced w0 w1 r w2 w3) = ''```json'' @ (w1 @ r @ w2) @ ''```''"
    using assms by (intro strip_fenced) auto
  then have "json_candidate (fenced w0 w1 r w2 w3) = strip (w1 @ r @ w2)"
    by (simp only: json_candidate_def Let_def fence_marks slice_fence simp_thms if_True)
  also have "\<dots> = strip (r @ w2)"
    using assms by (intro strip_append_left) auto
  also have "\<dots> = strip r"
    using assms by (intro strip_append_right) auto
  finally show ?thesis .
qed

lemma braced_not_fence: "braced s \<Longrightarrow> \<not> startswith s ''```json''"
  by (cases s) (auto simp: braced_def startswith_def)

lemma json_candidate_braced: "braced (strip r) \<Longrightarrow> json_candidate r = strip r"
  by (simp add: json_candidate_def Let_def braced_not_fence)

lemma int_of_digits_snoc:
  "int_of_digits (ds @ [d]) = 10 * int_of_digits ds + digit_value d"
  by (simp add: int_of_digits_def)

lemma decimal_snoc: "decimal (ds @ [d]) = 10 * decimal ds + (int (of_char d) - 48)"
proof -
  have "(\<Sum>i<length ds. (int (of_char ((ds @ [d]) ! i)) - 48) * 10 ^ (Suc (length ds) - Suc i))
      = (\<Sum>i<length ds. 10 * ((int (of_char (ds ! i)) - 48) * 10 ^ (length ds - Suc i)))"
  proof (rule sum.cong)
    fix i assume "i \<in> {..<length ds}"
    then have i: "i < length ds" by simp
    then have "Suc (length ds) - Suc i = Suc (length ds - Suc i)" by simp
    with i show "(int (of_char ((ds @ [d]) ! i)) - 48) * 10 ^ (Suc (length ds) - Suc i)
        = 10 * ((int (of_char (ds ! i)) - 48) * 10 ^ (length ds - Suc i))"
      by (simp add: nth_append)
  qed simp
  then show ?thesis
    by (simp add: decimal_def sum_distrib_left)
qed

lemma int_of_digits_decimal: "int_of_digits ds = decimal ds"
proof (induction ds rule: rev_induct)
  case Nil
  show ?case by (simp add: int_of_digits_def decimal_def)
next
  case (snoc d ds)
  then show ?case
    by (simp add: int_of_digits_snoc decimal_snoc digit_value_def)
qed

lemma decimal_nonneg: "\<forall>c\<in>set ds. isdigit c \<Longrightarrow> 0 \<le> decimal ds"
  using int_of_digits_nonneg [of ds] by (simp add: int_of_digits_decimal)

lemma parse_response_regex:
  "\<not> braced (json_candidate t) \<or> (\<exists>m. loads (json_candidate t) = Inl (JSONDecodeError m)) \<Longrightarrow>
   score_match t = Some ds \<Longrightarrow> feedback_match t = Some fb \<Longrightarrow>
   parse_response loads t
     = Inr (JObject [(''score'', JInt (int_of_digits ds)), (''feedback'', JString fb)])"
  by (auto simp: parse_response_def braced_def Let_def)

lemma parse_response_cases:
  assumes "parse_response loads t = Inr r"
  shows "(braced (json_candidate t) \<and> loads (json_candidate t) = Inr r)
         \<or> (\<exists>ds fb. score_match t = Some ds
               \<and> r = JObject [(''score'', JInt (int_of_digits ds)), (''feedback'', JString fb)])
         \<or> (\<exists>fb. r = JObject [(''score'', JInt 50), (''feedback'', JString fb)])"
  using assms
  by (auto simp: parse_response_def braced_def Let_def
      split: sum.splits if_splits option.splits)

lemma str_nat_digits: "\<forall>c\<in>set (str_nat n). isdigit c"
proof (induction n rule: str_nat.induct)
  case (1 n)
  show ?case
  proof (cases "n < 10")
    case True
    then show ?thesis by (subst str_nat.simps) (simp add: isdigit_def)
  next
    case False
    have "n mod 10 < 10" by simp
    then have "isdigit (char_of (48 + n mod 10))"
      by (simp add: isdigit_def Let_def)
    with False 1 show ?thesis by (subst str_nat.simps) simp
  qed
qed

lemma str_nat_decimal: "decimal (str_nat n) = int n"
proof (induction n rule: str_nat.induct)
  case (1 n)
  show ?case
  proof (cases "n < 10")
    case True
    then show ?thesis by (subst str_nat.simps) (simp add: decimal_def)
  next
    case False
    have m: "n mod 10 < 10" by simp
    have "decimal (str_nat n) = 10 * decimal (str_nat (n div 10)) + int (n mod 10)"
      using False m by (subst str_nat.simps) (simp add: decimal_snoc)
    with False 1 show ?thesis by (simp add: zdiv_int zmod_int)
  qed
qed

lemma pdf_pages_good:
  "pdf_pages n (map Inr texts) acc
     = Inr (acc @ concat (map (\<lambda>(i, t). ''\<newline>--- Page '' @ str_nat i @ '' ---\<newline>'' @ t)
                      (zip [Suc n..<Suc n + length texts] texts)))"
proof (induction texts arbitrary: n acc)
  case Nil
  show ?case by simp
next
  case (Cons t texts)
  have "[Suc n..<Suc n + length (t # texts)] = Suc n # [Suc (Suc n)..<Suc (Suc n) + length texts]"
    by (subst upt_rec) simp
  then show ?case by (simp add: Cons.IH)
qed

lemma pdf_pages_bad: "pdf_pages n (map Inr good @ Inl e # later) acc = Inl e"
  by (induction good arbitrary: n acc) simp_all

lemma slide_shapes_eq:
  "slide_shapes shapes acc
     = acc @ concat (map (\<lambda>shape. case shape of
                             None \<Rightarrow> []
                           | Some t \<Rightarrow> if t \<noteq> [] then t @ ''\<newline>'' else []) shapes)"
  by (induction shapes arbitrary: acc) (auto split: option.splits)

lemma pptx_slides_eq:
  "pptx_slides n slides acc
     = acc @ concat (map (\<lambda>(i, shapes). ''\<newline>--- Slide '' @ str_nat i @ '' ---\<newline>''
                            @ concat (map (\<lambda>shape. case shape of
                                             None \<Rightarrow> []
                                           | Some t \<Rightarrow> if t \<noteq> [] then t @ ''\<newline>'' else [])
                                        shapes))
                      (zip [Suc n..<Suc n + length slides] slides))"
proof (induction slides arbitrary: n acc)
  case Nil
  show ?case by simp
next
  case (Cons s slides)
  have "[Suc n..<Suc n + length (s # slides)] = Suc n # [Suc (Suc n)..<Suc (Suc n) + length slides]"
    by (subst upt_rec) simp
  then show ?case by (simp add: Cons.IH slide_shapes_eq)
qed

lemma docx_paragraphs_eq:
  "docx_paragraphs paras acc = acc @ concat (map (\<lambda>p. p @ ''\<newline>'') paras)"
  by (induction paras arbitrary: acc) simp_all

subsection \<open>Failure of the LLM call\<close>

text \<open>
  C2. For each of the ten components and every exception raised by the LLM call,
  \<open>analyze_component\<close> returns normally: it passes one message, naming the component and
  the error, to \<^verbatim>\<open>st.error\<close> and returns the record with score 0 and the feedback
  "Failed to analyze <component>. Please try again.".
\<close>

theorem C2_failure_sentinel:
  assumes "map_of BUSINESS_MODEL_CANVAS_PROMPTS component = Some prompt"
    and "create (build_request prompt content) = Inl e"
  shows "analyze_component create loads component content
     = ([''Error analyzing '' @ component @ '': '' @ exn_str e],
        Inr (JObject [(''score'', JInt 0),
                      (''feedback'',
                       JString (''Failed to analyze '' @ component @ ''. Please try again.''))]))"
proof -
  have "call_and_parse create loads prompt content = Inl e"
    using assms(2) by (simp add: call_and_parse_def)
  from analyze_component_caught [OF assms(1) this]
  show ?thesis .
qed

lemma prompt_overview: "map_of BUSINESS_MODEL_CANVAS_PROMPTS ''overview'' \<noteq> None"
  by (simp add: BUSINESS_MODEL_CANVAS_PROMPTS_def)

theorem C2_failure_sentinel_witness:
  "analyze_component timeout_client json_loads ''overview'' ''Our deck''
     = ([''Error analyzing overview: Request timed out.''],
        Inr (JObject [(''score'', JInt 0),
                      (''feedback'', JString ''Failed to analyze overview. Please try again.'')]))"
proof -
  obtain prompt where p: "map_of BUSINESS_MODEL_CANVAS_PROMPTS ''overview'' = Some prompt"
    using prompt_overview by blast
  have c: "timeout_client (build_request prompt ''Our deck'')
             = Inl (OtherError ''APITimeoutError'' ''Request timed out.'')"
    by (simp add: timeout_client_def)
  from C2_failure_sentinel [where create = timeout_client and loads = json_loads, OF p c]
  show ?thesis by simp
qed

subsection \<open>The summary metrics\<close>

text \<open>
  C3, as the code has it. For the ten scores 95, 85, 72, 65, 50, 90, 60, 78, 82, 55 the
  mean is 73.2, four scores count as strengths (95, 85, 90 and 82 are at least 80) and
  four as weaknesses (65, 50, 60, 55 are below 70). In every report that can be summed,
  the strengths are the scores of at least 80, the weaknesses those below 70, and a
  score in [70, 80) counts toward neither: the three groups together are all components.
\<close>

theorem C3_summarize:
  "summarize example_report
     = Some (Inr \<lparr>avg_score = 732 / 10, strengths = 4, weaknesses = 4\<rparr>)
   \<and> (summarize results = Some (Inr m) \<longrightarrow>
        strengths m = count_scores (\<lambda>x. 80 \<le> x) results
        \<and> weaknesses m = count_scores (\<lambda>x. x < 70) results
        \<and> strengths m + weaknesses m + count_scores (\<lambda>x. 70 \<le> x \<and> x < 80) results
            = length results)"
proof (intro conjI impI)
  show "summarize example_report
     = Some (Inr \<lparr>avg_score = 732 / 10, strengths = 4, weaknesses = 4\<rparr>)"
    by code_simp
next
  assume a: "summarize results = Some (Inr m)"
  then obtain xs where xs: "scores_of (map snd results) = Inr xs"
    and m: "m = \<lparr>avg_score = of_int (sum_list xs) / of_nat (length results),
                  strengths = length (filter (\<lambda>x. 80 \<le> x) xs),
                  weaknesses = length (filter (\<lambda>x. x < 70) xs)\<rparr>"
    by (auto simp: summarize_def split: if_splits sum.splits)
  show s: "strengths m = count_scores (\<lambda>x. 80 \<le> x) results"
    using m scores_of_filter [OF xs] by simp
  show w: "weaknesses m = count_scores (\<lambda>x. x < 70) results"
    using m scores_of_filter [OF xs] by simp
  have "length xs = length results" using scores_of_length [OF xs] by simp
  then show "strengths m + weaknesses m + count_scores (\<lambda>x. 70 \<le> x \<and> x < 80) results
            = length results"
    using three_way [of xs] m scores_of_filter [OF xs] by simp
qed

theorem C3_summarize_witness:
  "summarize example_report
     = Some (Inr \<lparr>avg_score = 732 / 10, strengths = 4, weaknesses = 4\<rparr>)
   \<and> count_scores (\<lambda>x. 70 \<le> x \<and> x < 80) example_report = 2"
proof -
  have e: "summarize example_report
     = Some (Inr \<lparr>avg_score = 732 / 10, strengths = 4, weaknesses = 4\<rparr>)"
    by code_simp
  have "length example_report = 10" by code_simp
  with C3_summarize [of example_report "\<lparr>avg_score = 732 / 10, strengths = 4, weaknesses = 4\<rparr>"] e
  show ?thesis by simp
qed

text \<open>The claimed count of three strengths is not what the code computes.\<close>

theorem C3_counterexample:
  "summarize example_report
     \<noteq> Some (Inr \<lparr>avg_score = 732 / 10, strengths = 3, weaknesses = 4\<rparr>)"
proof -
  have "summarize example_report
     = Some (Inr \<lparr>avg_score = 732 / 10, strengths = 4, weaknesses = 4\<rparr>)"
    by code_simp
  then show ?thesis by simp
qed

subsection \<open>The direct JSON parse\<close>

text \<open>
  C5. Interpreting the text {"score": 87, "feedback": "Good traction"} yields the record
  with score 87 and feedback "Good traction". In general, when the trimmed and
  fence-stripped text starts with an opening and ends with a closing brace and the
  decoder accepts it, interpretation succeeds and the score and the feedback of its
  result are those of the decoded object.
\<close>

theorem C5_direct_json:
  \<open>parse_response json_loads ''{"score": 87, "feedback": "Good traction"}''
     = Inr (JObject [(''score'', JInt 87), (''feedback'', JString ''Good traction'')])
   \<and> (braced (json_candidate t) \<and> loads (json_candidate t) = Inr v \<longrightarrow>
        (\<exists>r. parse_response loads t = Inr r
           \<and> getitem r ''score'' = getitem v ''score''
           \<and> getitem r ''feedback'' = getitem v ''feedback''))\<close>
proof (intro conjI impI)
  show \<open>parse_response json_loads ''{"score": 87, "feedback": "Good traction"}''
     = Inr (JObject [(''score'', JInt 87), (''feedback'', JString ''Good traction'')])\<close>
    by code_simp
next
  assume "braced (json_candidate t) \<and> loads (json_candidate t) = Inr v"
  then have "parse_response loads t = Inr v"
    by (simp add: parse_response_direct)
  then show "\<exists>r. parse_response loads t = Inr r
           \<and> getitem r ''score'' = getitem v ''score''
           \<and> getitem r ''feedback'' = getitem v ''feedback''"
    by simp
qed

theorem C5_direct_json_witness:
  \<open>braced (json_candidate ''  {"feedback": "Solid team", "score": 64}  '')
   \<and> json_loads (json_candidate ''  {"feedback": "Solid team", "score": 64}  '')
       = Inr (JObject [(''feedback'', JString ''Solid team''), (''score'', JInt 64)])
   \<and> (\<exists>r. parse_response json_loads ''  {"feedback": "Solid team", "score": 64}  '' = Inr r
         \<and> getitem r ''score'' = Inr (JInt 64)
         \<and> getitem r ''feedback'' = Inr (JString ''Solid team''))\<close>
proof -
  have b: \<open>braced (json_candidate ''  {"feedback": "Solid team", "score": 64}  '')\<close>
    by code_simp
  have l: \<open>json_loads (json_candidate ''  {"feedback": "Solid team", "score": 64}  '')
       = Inr (JObject [(''feedback'', JString ''Solid team''), (''score'', JInt 64)])\<close>
    by code_simp
  from C5_direct_json [where loads = json_loads
      and t = \<open>''  {"feedback": "Solid team", "score": 64}  ''\<close>
      and v = "JObject [(''feedback'', JString ''Solid team''), (''score'', JInt 64)]"] b l
  show ?thesis by simp
qed

text \<open>
  C10. When the trimmed and fence-stripped text is delimited by braces and the decoder
  accepts it, interpretation returns the decoded value itself, whatever it holds. The
  examples after the theorem are an object without a score, one without feedback and
  with a negative score, one with a score that is not an integer, and one with a score
  above 100: each comes back unchanged.
\<close>

theorem C10_verbatim:
  assumes "braced (json_candidate t)"
    and "loads (json_candidate t) = Inr v"
  shows "parse_response loads t = Inr v"
  using assms by (rule parse_response_direct)

theorem C10_verbatim_witness:
  \<open>parse_response json_loads ''{"feedback": "no score given"}''
     = Inr (JObject [(''feedback'', JString ''no score given'')])
   \<and> getitem (JObject [(''feedback'', JString ''no score given'')]) ''score''
       = Inl (KeyError ''score'')
   \<and> parse_response json_loads ''{"score": -5}'' = Inr (JObject [(''score'', JInt (- 5))])
   \<and> getitem (JObject [(''score'', JInt (- 5))]) ''feedback'' = Inl (KeyError ''feedback'')
   \<and> parse_response json_loads ''```json {"score": 87.5, "feedback": "fine"} ```''
       = Inr (JObject [(''score'', JFloat ''87.5''), (''feedback'', JString ''fine'')])
   \<and> parse_response json_loads ''{"score": 150, "feedback": "over the top"}''
       = Inr (JObject [(''score'', JInt 150), (''feedback'', JString ''over the top'')])\<close>
proof -
  have b1: \<open>braced (json_candidate ''{"feedback": "no score given"}'')\<close> by code_simp
  have l1: \<open>json_loads (json_candidate ''{"feedback": "no score given"}'')
     = Inr (JObject [(''feedback'', JString ''no score given'')])\<close> by code_simp
  have b2: \<open>braced (json_candidate ''{"score": -5}'')\<close> by code_simp
  have l2: \<open>json_loads (json_candidate ''{"score": -5}'')
     = Inr (JObject [(''score'', JInt (- 5))])\<close> by code_simp
  have b3: \<open>braced (json_candidate ''```json {"score": 87.5, "feedback": "fine"} ```'')\<close>
    by code_simp
  have l3: \<open>json_loads (json_candidate ''```json {"score": 87.5, "feedback": "fine"} ```'')
     = Inr (JObject [(''score'', JFloat ''87.5''), (''feedback'', JString ''fine'')])\<close>
    by code_simp
  have b4: \<open>braced (json_candidate ''{"score": 150, "feedback": "over the top"}'')\<close>
    by code_simp
  have l4: \<open>json_loads (json_candidate ''{"score": 150, "feedback": "over the top"}'')
     = Inr (JObject [(''score'', JInt 150), (''feedback'', JString ''over the top'')])\<close>
    by code_simp
  show ?thesis
    using C10_verbatim [where loads = json_loads, OF b1 l1]
      C10_verbatim [where loads = json_loads, OF b2 l2]
      C10_verbatim [where loads = json_loads, OF b3 l3]
      C10_verbatim [where loads = json_loads, OF b4 l4]
    by simp
qed

subsection \<open>Text extraction\<close>

text \<open>
  C9. For an uploaded file whose lower-cased extension is none of .pdf, .pptx, .docx
  and .ppt, extraction returns normally, whatever the document libraries would do: the
  result is the text "Unsupported file format: " followed by that extension, and it is
  not empty.
\<close>

theorem C9_unsupported_format:
  assumes "extension_of uploaded \<notin> {''.pdf'', ''.pptx'', ''.docx'', ''.ppt''}"
  shows "extract_text_from_file lib uploaded
           = Inr (''Unsupported file format: '' @ extension_of uploaded)
         \<and> ''Unsupported file format: '' @ extension_of uploaded \<noteq> []"
  using assms by (simp add: extract_text_from_file_def extension_of_def Let_def)

theorem C9_unsupported_format_witness:
  "extension_of \<lparr>file_name = ''notes.v2.TXT'', file_value = ''plain text''\<rparr> = ''.txt''
   \<and> extract_text_from_file failing_readers
        \<lparr>file_name = ''notes.v2.TXT'', file_value = ''plain text''\<rparr>
       = Inr ''Unsupported file format: .txt''"
proof -
  have e: "extension_of \<lparr>file_name = ''notes.v2.TXT'', file_value = ''plain text''\<rparr> = ''.txt''"
    by code_simp
  then have "extension_of \<lparr>file_name = ''notes.v2.TXT'', file_value = ''plain text''\<rparr>
      \<notin> {''.pdf'', ''.pptx'', ''.docx'', ''.ppt''}"
    by simp
  from C9_unsupported_format [OF this, where lib = failing_readers] e show ?thesis by simp
qed

text \<open>
  C8, as the code has it. For a .ppt file extraction always returns the fixed notice.
  For the other three supported formats there is no handler around the library calls.
  When the library raises, or for a PDF when the text of a page cannot be read,
  extraction raises that exception; no placeholder takes its place. When the library
  succeeds, extraction returns the extracted text: for a PDF the text of each page
  under a line with its page number, for a presentation the non-empty texts of the
  shapes of each slide, one per line, under a line with the slide number, and for a
  document its paragraphs, one per line. The numbers start at 1 and are written in
  decimal digits.
\<close>

theorem C8_extraction_outcome:
  "(extension_of uploaded = ''.ppt'' \<longrightarrow>
      extract_text_from_file lib uploaded
        = Inr ''PPT format has limited extraction capabilities. Consider converting to PPTX for better results.'')
   \<and> (extension_of uploaded = ''.pdf'' \<and> PdfReader lib (file_value uploaded) = Inl e \<longrightarrow>
        extract_text_from_file lib uploaded = Inl e)
   \<and> (extension_of uploaded = ''.pdf''
        \<and> PdfReader lib (file_value uploaded) = Inr (map Inr good @ Inl e # later) \<longrightarrow>
        extract_text_from_file lib uploaded = Inl e)
   \<and> (extension_of uploaded = ''.pdf''
        \<and> PdfReader lib (file_value uploaded) = Inr (map Inr texts) \<longrightarrow>
        extract_text_from_file lib uploaded
          = Inr (concat (map (\<lambda>(i, t). ''\<newline>--- Page '' @ str_nat i @ '' ---\<newline>'' @ t)
                           (zip [1..<Suc (length texts)] texts))))
   \<and> (extension_of uploaded = ''.pptx'' \<and> Presentation lib (file_value uploaded) = Inl e \<longrightarrow>
        extract_text_from_file lib uploaded = Inl e)
   \<and> (extension_of uploaded = ''.pptx''
        \<and> Presentation lib (file_value uploaded) = Inr slides \<longrightarrow>
        extract_text_from_file lib uploaded
          = Inr (concat (map (\<lambda>(i, shapes).
                                ''\<newline>--- Slide '' @ str_nat i @ '' ---\<newline>''
                                  @ concat (map (\<lambda>shape. case shape of
                                                   None \<Rightarrow> []
                                                 | Some t \<Rightarrow> if t \<noteq> [] then t @ ''\<newline>'' else [])
                                              shapes))
                           (zip [1..<Suc (length slides)] slides))))
   \<and> (extension_of uploaded = ''.docx'' \<and> Document lib (file_value uploaded) = Inl e \<longrightarrow>
        extract_text_from_file lib uploaded = Inl e)
   \<and> (extension_of uploaded = ''.docx'' \<and> Document lib (file_value uploaded) = Inr paras \<longrightarrow>
        extract_text_from_file lib uploaded
          = Inr (concat (map (\<lambda>p. p @ ''\<newline>'') paras)))
   \<and> decimal (str_nat n) = int n \<and> (\<forall>c\<in>set (str_nat n). isdigit c)"
proof -
  have ppt: "extract_text_from_file lib uploaded
        = Inr ''PPT format has limited extraction capabilities. Consider converting to PPTX for better results.''"
    if "extension_of uploaded = ''.ppt''"
    using that by (simp add: extract_text_from_file_def extension_of_def)
  have pdf1: "extract_text_from_file lib uploaded = Inl e"
    if "extension_of uploaded = ''.pdf'' \<and> PdfReader lib (file_value uploaded) = Inl e"
    using that by (simp add: extract_text_from_file_def extension_of_def)
  have pdf2: "extract_text_from_file lib uploaded = Inl e"
    if "extension_of uploaded = ''.pdf''
        \<and> PdfReader lib (file_value uploaded) = Inr (map Inr good @ Inl e # later)"
    using that by (simp add: extract_text_from_file_def extension_of_def pdf_pages_bad)
  have pdf3: "extract_text_from_file lib uploaded
          = Inr (concat (map (\<lambda>(i, t). ''\<newline>--- Page '' @ str_nat i @ '' ---\<newline>'' @ t)
                           (zip [1..<Suc (length texts)] texts)))"
    if "extension_of uploaded = ''.pdf''
        \<and> PdfReader lib (file_value uploaded) = Inr (map Inr texts)"
    using that pdf_pages_good [of 0 texts "[]"]
    by (simp add: extract_text_from_file_def extension_of_def)
  have pptx1: "extract_text_from_file lib uploaded = Inl e"
    if "extension_of uploaded = ''.pptx'' \<and> Presentation lib (file_value uploaded) = Inl e"
    using that by (simp add: extract_text_from_file_def extension_of_def)
  have pptx2: "extract_text_from_file lib uploaded
          = Inr (concat (map (\<lambda>(i, shapes).
                                ''\<newline>--- Slide '' @ str_nat i @ '' ---\<newline>''
                                  @ concat (map (\<lambda>shape. case shape of
                                                   None \<Rightarrow> []
                                                 | Some t \<Rightarrow> if t \<noteq> [] then t @ ''\<newline>'' else [])
                                              shapes))
                           (zip [1..<Suc (length slides)] slides)))"
    if "extension_of uploaded = ''.pptx''
        \<and> Presentation lib (file_value uploaded) = Inr slides"
    using that pptx_slides_eq [of 0 slides "[]"]
    by (simp add: extract_text_from_file_def extension_of_def)
  have docx1: "extract_text_from_file lib uploaded = Inl e"
    if "extension_of uploaded = ''.docx'' \<and> Document lib (file_value uploaded) = Inl e"
    using that by (simp add: extract_text_from_file_def extension_of_def)
  have docx2: "extract_text_from_file lib uploaded
          = Inr (concat (map (\<lambda>p. p @ ''\<newline>'') paras))"
    if "extension_of uploaded = ''.docx'' \<and> Document lib (file_value uploaded) = Inr paras"
    using that docx_paragraphs_eq [of paras "[]"]
    by (simp add: extract_text_from_file_def extension_of_def)
  from ppt pdf1 pdf2 pdf3 pptx1 pptx2 docx1 docx2 str_nat_decimal [of n] str_nat_digits [of n]
  show ?thesis by (intro conjI impI)
qed

theorem C8_extraction_outcome_witness:
  "extract_text_from_file failing_readers \<lparr>file_name = ''old deck.PPT'', file_value = []\<rparr>
     = Inr ''PPT format has limited extraction capabilities. Consider converting to PPTX for better results.''
   \<and> extract_text_from_file failing_readers \<lparr>file_name = ''deck.pdf'', file_value = []\<rparr>
       = Inl (OtherError ''EmptyFileError'' ''Cannot read an empty file'')
   \<and> extract_text_from_file broken_page_readers \<lparr>file_name = ''deck.pdf'', file_value = []\<rparr>
       = Inl (OtherError ''PdfReadError'' ''bad page'')
   \<and> extract_text_from_file sample_readers \<lparr>file_name = ''deck.pdf'', file_value = []\<rparr>
       = Inr ''\<newline>--- Page 1 ---\<newline>Problem\<newline>--- Page 2 ---\<newline>\<newline>--- Page 3 ---\<newline>Team''
   \<and> extract_text_from_file failing_readers \<lparr>file_name = ''deck.pptx'', file_value = []\<rparr>
       = Inl (OtherError ''PackageNotFoundError'' ''Package not found'')
   \<and> extract_text_from_file sample_readers \<lparr>file_name = ''deck.pptx'', file_value = []\<rparr>
       = Inr ''\<newline>--- Slide 1 ---\<newline>Title\<newline>Vision\<newline>\<newline>--- Slide 2 ---\<newline>''
   \<and> extract_text_from_file failing_readers \<lparr>file_name = ''deck.docx'', file_value = []\<rparr>
       = Inl (OtherError ''PackageNotFoundError'' ''Package not found'')
   \<and> extract_text_from_file sample_readers \<lparr>file_name = ''deck.docx'', file_value = []\<rparr>
       = Inr ''Summary\<newline>\<newline>Market\<newline>''
   \<and> str_nat 12 = ''12'' \<and> decimal (str_nat 12) = 12"
proof -
  let ?ppt = "\<lparr>file_name = ''old deck.PPT'', file_value = []\<rparr>"
  let ?pdf = "\<lparr>file_name = ''deck.pdf'', file_value = []\<rparr>"
  let ?pptx = "\<lparr>file_name = ''deck.pptx'', file_value = []\<rparr>"
  let ?docx = "\<lparr>file_name = ''deck.docx'', file_value = []\<rparr>"
  let ?texts = "[''Problem'', [], ''Team'']"
  let ?slides = "[[Some ''Title'', None, Some [], Some ''Vision''], []]"
  let ?paras = "[''Summary'', [], ''Market'']"
  have e1: "extension_of ?ppt = ''.ppt''" by code_simp
  have e2: "extension_of ?pdf = ''.pdf''" by code_simp
  have e3: "extension_of ?pptx = ''.pptx''" by code_simp
  have e4: "extension_of ?docx = ''.docx''" by code_simp
  have f2: "PdfReader failing_readers (file_value ?pdf)
      = Inl (OtherError ''EmptyFileError'' ''Cannot read an empty file'')"
    by (simp add: failing_readers_def)
  have f3: "Presentation failing_readers (file_value ?pptx)
      = Inl (OtherError ''PackageNotFoundError'' ''Package not found'')"
    by (simp add: failing_readers_def)
  have f4: "Document failing_readers (file_value ?docx)
      = Inl (OtherError ''PackageNotFoundError'' ''Package not found'')"
    by (simp add: failing_readers_def)
  have b2: "PdfReader broken_page_readers (file_value ?pdf)
      = Inr (map Inr [''Problem''] @ Inl (OtherError ''PdfReadError'' ''bad page'') # [Inr ''Team''])"
    by (simp add: broken_page_readers_def)
  have s2: "PdfReader sample_readers (file_value ?pdf) = Inr (map Inr ?texts)"
    by (simp add: sample_readers_def)
  have s3: "Presentation sample_readers (file_value ?pptx) = Inr ?slides"
    by (simp add: sample_readers_def)
  have s4: "Document sample_readers (file_value ?docx) = Inr ?paras"
    by (simp add: sample_readers_def)
  have k2: "concat (map (\<lambda>(i, t). ''\<newline>--- Page '' @ str_nat i @ '' ---\<newline>'' @ t)
              (zip [1..<Suc (length ?texts)] ?texts))
      = ''\<newline>--- Page 1 ---\<newline>Problem\<newline>--- Page 2 ---\<newline>\<newline>--- Page 3 ---\<newline>Team''"
    by code_simp
  have k3: "concat (map (\<lambda>(i, shapes).
                ''\<newline>--- Slide '' @ str_nat i @ '' ---\<newline>''
                  @ concat (map (\<lambda>shape. case shape of
                                   None \<Rightarrow> []
                                 | Some t \<Rightarrow> if t \<noteq> [] then t @ ''\<newline>'' else [])
                              shapes))
              (zip [1..<Suc (length ?slides)] ?slides))
      = ''\<newline>--- Slide 1 ---\<newline>Title\<newline>Vision\<newline>\<newline>--- Slide 2 ---\<newline>''"
    by code_simp
  have k4: "concat (map (\<lambda>p. p @ ''\<newline>'') ?paras) = ''Summary\<newline>\<newline>Market\<newline>''"
    by code_simp
  have n12: "str_nat 12 = ''12''" by code_simp
  have r1: "extract_text_from_file failing_readers ?ppt
     = Inr ''PPT format has limited extraction capabilities. Consider converting to PPTX for better results.''"
    using C8_extraction_outcome [where lib = failing_readers and uploaded = ?ppt] e1 by blast
  have r2: "extract_text_from_file failing_readers ?pdf
     = Inl (OtherError ''EmptyFileError'' ''Cannot read an empty file'')"
    using C8_extraction_outcome [where lib = failing_readers and uploaded = ?pdf
        and e = "OtherError ''EmptyFileError'' ''Cannot read an empty file''"] e2 f2
    by blast
  have r3: "extract_text_from_file broken_page_readers ?pdf
     = Inl (OtherError ''PdfReadError'' ''bad page'')"
    using C8_extraction_outcome [where lib = broken_page_readers and uploaded = ?pdf
        and e = "OtherError ''PdfReadError'' ''bad page''" and good = "[''Problem'']"
        and later = "[Inr ''Team'']"] e2 b2
    by blast
  have "extract_text_from_file sample_readers ?pdf
     = Inr (concat (map (\<lambda>(i, t). ''\<newline>--- Page '' @ str_nat i @ '' ---\<newline>'' @ t)
              (zip [1..<Suc (length ?texts)] ?texts)))"
    using C8_extraction_outcome [where lib = sample_readers and uploaded = ?pdf
        and texts = ?texts] e2 s2
    by blast
  with k2 have r4: "extract_text_from_file sample_readers ?pdf
     = Inr ''\<newline>--- Page 1 ---\<newline>Problem\<newline>--- Page 2 ---\<newline>\<newline>--- Page 3 ---\<newline>Team''"
    by (simp only:)
  have r5: "extract_text_from_file failing_readers ?pptx
     = Inl (OtherError ''PackageNotFoundError'' ''Package not found'')"
    using C8_extraction_outcome [where lib = failing_readers and uploaded = ?pptx
        and e = "OtherError ''PackageNotFoundError'' ''Package not found''"] e3 f3
    by blast
  have "extract_text_from_file sample_readers ?pptx
     = Inr (concat (map (\<lambda>(i, shapes).
                ''\<newline>--- Slide '' @ str_nat i @ '' ---\<newline>''
                  @ concat (map (\<lambda>shape. case shape of
                                   None \<Rightarrow> []
                                 | Some t \<Rightarrow> if t \<noteq> [] then t @ ''\<newline>'' else [])
                              shapes))
              (zip [1..<Suc (length ?slides)] ?slides)))"
    using C8_extraction_outcome [where lib = sample_readers and uploaded = ?pptx
        and slides = ?slides] e3 s3
    by blast
  with k3 have r6: "extract_text_from_file sample_readers ?pptx
     = Inr ''\<newline>--- Slide 1 ---\<newline>Title\<newline>Vision\<newline>\<newline>--- Slide 2 ---\<newline>''"
    by (simp only:)
  have r7: "extract_text_from_file failing_readers ?docx
     = Inl (OtherError ''PackageNotFoundError'' ''Package not found'')"
    using C8_extraction_outcome [where lib = failing_readers and uploaded = ?docx
        and e = "OtherError ''PackageNotFoundError'' ''Package not found''"] e4 f4
    by blast
  have "extract_text_from_file sample_readers ?docx
     = Inr (concat (map (\<lambda>p. p @ ''\<newline>'') ?paras))"
    using C8_extraction_outcome [where lib = sample_readers and uploaded = ?docx
        and paras = ?paras] e4 s4
    by blast
  with k4 have r8: "extract_text_from_file sample_readers ?docx
     = Inr ''Summary\<newline>\<newline>Market\<newline>''"
    by (simp only:)
  have r9: "decimal (str_nat 12) = 12"
    using C8_extraction_outcome [where n = 12] by simp
  from r1 r2 r3 r4 r5 r6 r7 r8 n12 r9 show ?thesis by (intro conjI)
qed

text \<open>
  A PDF that its reader rejects makes extraction raise, against the claim that a
  supported format never fails.
\<close>

theorem C8_counterexample:
  "extract_text_from_file failing_readers \<lparr>file_name = ''deck.pdf'', file_value = []\<rparr>
     = Inl (OtherError ''EmptyFileError'' ''Cannot read an empty file'')"
  by code_simp

subsection \<open>Interpretation when the direct parse does not apply\<close>

text \<open>
  C7. Let a text contain, at some position each, a match of the score pattern and a
  match of the feedback pattern, and let it be malformed: its trimmed and fence-stripped
  form is not delimited by braces, or the decoder rejects it with a JSONDecodeError.
  Then both searches succeed, the matched score is a non-empty run of digits, and the
  result is the record whose score is the number these digits denote and whose feedback
  is the matched string. The examples are the text of the spec in prose, with score 42
  and feedback "Needs work", and an object spoilt by a trailing comma.
\<close>

theorem C7_regex_extraction:
  assumes "t = p1 @ s1" and "score_at s1 = Some d1"
    and "t = p2 @ s2" and "feedback_at s2 = Some f2"
    and "\<not> braced (json_candidate t) \<or> (\<exists>m. loads (json_candidate t) = Inl (JSONDecodeError m))"
  shows "\<exists>ds fb. score_match t = Some ds \<and> feedback_match t = Some fb
           \<and> ds \<noteq> [] \<and> (\<forall>c\<in>set ds. isdigit c)
           \<and> parse_response loads t
               = Inr (JObject [(''score'', JInt (decimal ds)), (''feedback'', JString fb)])"
proof -
  obtain ds where ds: "score_match t = Some ds"
    using re_search_embedded [where m = score_at and pre = p1, OF assms(2)] assms(1)
    by (auto simp: score_match_def)
  obtain fb where fb: "feedback_match t = Some fb"
    using re_search_embedded [where m = feedback_at and pre = p2, OF assms(4)] assms(3)
    by (auto simp: feedback_match_def)
  have "parse_response loads t
      = Inr (JObject [(''score'', JInt (decimal ds)), (''feedback'', JString fb)])"
    using parse_response_regex [where loads = loads, OF assms(5) ds fb]
    by (simp add: int_of_digits_decimal)
  with ds fb score_match_digits [OF ds] show ?thesis by blast
qed

theorem C7_regex_extraction_witness:
  \<open>parse_response json_loads
      ''I would put the "score": 42 here, and the "feedback": "Needs work" sums it up.''
     = Inr (JObject [(''score'', JInt 42), (''feedback'', JString ''Needs work'')])
   \<and> json_loads (json_candidate ''{"score" : 61, "feedback": "Thin pitch",}'')
       = Inl (JSONDecodeError ''the text is not valid JSON'')
   \<and> parse_response json_loads ''{"score" : 61, "feedback": "Thin pitch",}''
       = Inr (JObject [(''score'', JInt 61), (''feedback'', JString ''Thin pitch'')])\<close>
proof -
  let ?t = \<open>''I would put the "score": 42 here, and the "feedback": "Needs work" sums it up.''\<close>
  let ?u = \<open>''{"score" : 61, "feedback": "Thin pitch",}''\<close>
  have t1: \<open>?t = ''I would put the '' @ ''"score": 42 here, and the "feedback": "Needs work" sums it up.''\<close>
    by simp
  have t2: \<open>score_at ''"score": 42 here, and the "feedback": "Needs work" sums it up.'' = Some ''42''\<close>
    by code_simp
  have t3: \<open>?t = ''I would put the "score": 42 here, and the '' @ ''"feedback": "Needs work" sums it up.''\<close>
    by simp
  have t4: \<open>feedback_at ''"feedback": "Needs work" sums it up.'' = Some ''Needs work''\<close>
    by code_simp
  have t5: "\<not> braced (json_candidate ?t)" by code_simp
  have ts: \<open>score_match ?t = Some ''42''\<close> by code_simp
  have tf: \<open>feedback_match ?t = Some ''Needs work''\<close> by code_simp
  have u1: \<open>?u = ''{'' @ ''"score" : 61, "feedback": "Thin pitch",}''\<close> by simp
  have u2: \<open>score_at ''"score" : 61, "feedback": "Thin pitch",}'' = Some ''61''\<close> by code_simp
  have u3: \<open>?u = ''{"score" : 61, '' @ ''"feedback": "Thin pitch",}''\<close> by simp
  have u4: \<open>feedback_at ''"feedback": "Thin pitch",}'' = Some ''Thin pitch''\<close> by code_simp
  have u5: \<open>json_loads (json_candidate ?u) = Inl (JSONDecodeError ''the text is not valid JSON'')\<close>
    by code_simp
  have us: \<open>score_match ?u = Some ''61''\<close> by code_simp
  have uf: \<open>feedback_match ?u = Some ''Thin pitch''\<close> by code_simp
  have d42: "decimal ''42'' = 42" by (simp add: decimal_def lessThan_Suc numeral_2_eq_2)
  have d61: "decimal ''61'' = 61" by (simp add: decimal_def lessThan_Suc numeral_2_eq_2)
  have a: "parse_response json_loads ?t
      = Inr (JObject [(''score'', JInt 42), (''feedback'', JString ''Needs work'')])"
    using C7_regex_extraction [where loads = json_loads, OF t1 t2 t3 t4] t5 ts tf d42 by auto
  have b: "parse_response json_loads ?u
      = Inr (JObject [(''score'', JInt 61), (''feedback'', JString ''Thin pitch'')])"
    using C7_regex_extraction [where loads = json_loads, OF u1 u2 u3 u4] u5 us uf d61 by auto
  from a b u5 show ?thesis by simp
qed

text \<open>
  C4, as the code has it. There are two fallbacks. When the trimmed and fence-stripped
  text is not delimited by braces and no score is found, the result has score 50 and a
  feedback that flags the failure and embeds the first 200 characters of the raw text,
  followed by three dots. When the text is delimited by braces and the decoder rejects
  it with a JSONDecodeError, the score is the matched integer, or 50 when none is
  found, and the feedback is the matched string, or the fixed text "Failed to parse
  Claude's response." when none is found; no part of the raw text is embedded.
\<close>

theorem C4_fallback:
  "(\<not> braced (json_candidate t) \<and> score_match t = None \<longrightarrow>
      parse_response loads t
        = Inr (JObject
            [(''score'', JInt 50),
             (''feedback'',
              JString (''Analysis could not be processed properly. Here's the raw response: ''
                         @ take 200 t @ ''...''))]))
   \<and> (braced (json_candidate t) \<and> loads (json_candidate t) = Inl (JSONDecodeError m) \<longrightarrow>
        parse_response loads t
          = Inr (JObject
              [(''score'',
                JInt (case score_match t of Some ds \<Rightarrow> decimal ds | None \<Rightarrow> 50)),
               (''feedback'',
                JString (case feedback_match t of
                           Some fb \<Rightarrow> fb
                         | None \<Rightarrow> ''Failed to parse Claude's response.''))]))"
proof (intro conjI impI)
  assume "\<not> braced (json_candidate t) \<and> score_match t = None"
  moreover have "slice t 0 200 = take 200 t"
    using slice_prefix [of t 200] by simp
  ultimately show "parse_response loads t
        = Inr (JObject
            [(''score'', JInt 50),
             (''feedback'',
              JString (''Analysis could not be processed properly. Here's the raw response: ''
                         @ take 200 t @ ''...''))])"
    by (auto simp: parse_response_def braced_def Let_def split: option.splits)
next
  assume "braced (json_candidate t) \<and> loads (json_candidate t) = Inl (JSONDecodeError m)"
  then show "parse_response loads t
          = Inr (JObject
              [(''score'',
                JInt (case score_match t of Some ds \<Rightarrow> decimal ds | None \<Rightarrow> 50)),
               (''feedback'',
                JString (case feedback_match t of
                           Some fb \<Rightarrow> fb
                         | None \<Rightarrow> ''Failed to parse Claude's response.''))])"
    by (simp add: parse_response_def braced_def Let_def int_of_digits_decimal
        split: option.splits)
qed

theorem C4_fallback_witness:
  \<open>parse_response json_loads ''I cannot rate this deck.''
     = Inr (JObject
         [(''score'', JInt 50),
          (''feedback'',
           JString ''Analysis could not be processed properly. Here's the raw response: I cannot rate this deck....'')])
   \<and> length long_reply = 330
   \<and> parse_response json_loads long_reply
       = Inr (JObject
           [(''score'', JInt 50),
            (''feedback'',
             JString (''Analysis could not be processed properly. Here's the raw response: ''
                        @ concat (replicate 18 ''No rating. '') @ ''No'' @ ''...''))])
   \<and> parse_response json_loads ''{"score": 61, but no more}''
       = Inr (JObject [(''score'', JInt 61),
                       (''feedback'', JString ''Failed to parse Claude's response.'')])
   \<and> parse_response json_loads ''{"feedback": "Crisp" and no score}''
       = Inr (JObject [(''score'', JInt 50), (''feedback'', JString ''Crisp'')])\<close>
proof -
  have s1: "\<not> braced (json_candidate ''I cannot rate this deck.'')" by code_simp
  have s2: "score_match ''I cannot rate this deck.'' = None" by code_simp
  have n: "length long_reply = 330" by code_simp
  have a1: "\<not> braced (json_candidate long_reply)" by code_simp
  have a2: "score_match long_reply = None" by code_simp
  have a3: "take 200 long_reply = concat (replicate 18 ''No rating. '') @ ''No''" by code_simp
  have b1: \<open>braced (json_candidate ''{"score": 61, but no more}'')\<close> by code_simp
  have b2: \<open>json_loads (json_candidate ''{"score": 61, but no more}'')
     = Inl (JSONDecodeError ''the text is not valid JSON'')\<close> by code_simp
  have b3: \<open>score_match ''{"score": 61, but no more}'' = Some ''61''\<close> by code_simp
  have b4: \<open>feedback_match ''{"score": 61, but no more}'' = None\<close> by code_simp
  have b5: "decimal ''61'' = 61" by (simp add: decimal_def lessThan_Suc numeral_2_eq_2)
  have c1: \<open>braced (json_candidate ''{"feedback": "Crisp" and no score}'')\<close> by code_simp
  have c2: \<open>json_loads (json_candidate ''{"feedback": "Crisp" and no score}'')
     = Inl (JSONDecodeError ''the text is not valid JSON'')\<close> by code_simp
  have c3: \<open>score_match ''{"feedback": "Crisp" and no score}'' = None\<close> by code_simp
  have c4: \<open>feedback_match ''{"feedback": "Crisp" and no score}'' = Some ''Crisp''\<close> by code_simp
  have r1: \<open>parse_response json_loads ''I cannot rate this deck.''
     = Inr (JObject
         [(''score'', JInt 50),
          (''feedback'',
           JString ''Analysis could not be processed properly. Here's the raw response: I cannot rate this deck....'')])\<close>
    using C4_fallback [where loads = json_loads and t = "''I cannot rate this deck.''"] s1 s2
    by simp
  have r2: "parse_response json_loads long_reply
       = Inr (JObject
           [(''score'', JInt 50),
            (''feedback'',
             JString (''Analysis could not be processed properly. Here's the raw response: ''
                        @ concat (replicate 18 ''No rating. '') @ ''No'' @ ''...''))])"
    using C4_fallback [where loads = json_loads and t = long_reply] a1 a2 a3
    by (simp del: replicate.simps concat.simps)
  have r3: \<open>parse_response json_loads ''{"score": 61, but no more}''
       = Inr (JObject [(''score'', JInt 61),
                       (''feedback'', JString ''Failed to parse Claude's response.'')])\<close>
    using C4_fallback [where loads = json_loads and t = \<open>''{"score": 61, but no more}''\<close>
      and m = "''the text is not valid JSON''"] b1 b2 b3 b4 b5
    by simp
  have r4: \<open>parse_response json_loads ''{"feedback": "Crisp" and no score}''
       = Inr (JObject [(''score'', JInt 50), (''feedback'', JString ''Crisp'')])\<close>
    using C4_fallback [where loads = json_loads
      and t = \<open>''{"feedback": "Crisp" and no score}''\<close>
      and m = "''the text is not valid JSON''"] c1 c2 c3 c4
    by simp
  from r1 n r2 r3 r4 show ?thesis by (simp only: simp_thms)
qed

text \<open>
  For the text {abc} neither value is found, and the feedback does not hold any part of
  the raw text, not even its first character.
\<close>

theorem C4_counterexample:
  \<open>score_match ''{abc}'' = None \<and> feedback_match ''{abc}'' = None
   \<and> parse_response json_loads ''{abc}''
       = Inr (JObject [(''score'', JInt 50),
                       (''feedback'', JString ''Failed to parse Claude's response.'')])
   \<and> \<not> occurs_in ''{'' ''Failed to parse Claude's response.''\<close>
  by code_simp

subsection \<open>The json fence\<close>

text \<open>
  C6, as the code has it. Let a response be a well-formed JSON object: its trimmed form
  is delimited by braces and the decoder accepts it. Wrapping it in a json fence, with
  any whitespace around the fence marks, does not change the result of interpretation:
  both are the decoded object.
\<close>

theorem C6_fence_same_result:
  assumes "\<forall>c\<in>set (w0 @ w1 @ w2 @ w3). isspace c"
    and "braced (strip r)"
    and "loads (strip r) = Inr v"
  shows "parse_response loads (fenced w0 w1 r w2 w3) = parse_response loads r
         \<and> parse_response loads r = Inr v"
proof -
  have a: "json_candidate (fenced w0 w1 r w2 w3) = strip r"
    using assms(1) by (rule json_candidate_fenced)
  have b: "json_candidate r = strip r"
    using assms(2) by (rule json_candidate_braced)
  have "parse_response loads (fenced w0 w1 r w2 w3) = Inr v"
    using a assms(2,3) by (intro parse_response_direct) simp_all
  moreover have "parse_response loads r = Inr v"
    using b assms(2,3) by (intro parse_response_direct) simp_all
  ultimately show ?thesis by simp
qed

theorem C6_fence_same_result_witness:
  \<open>fenced [] ''\<newline>'' ''{"score": 87, "feedback": "Good traction"}'' ''\<newline>'' '' ''
     = ''```json\<newline>{"score": 87, "feedback": "Good traction"}\<newline>``` ''
   \<and> parse_response json_loads
        ''```json\<newline>{"score": 87, "feedback": "Good traction"}\<newline>``` ''
       = parse_response json_loads ''{"score": 87, "feedback": "Good traction"}''
   \<and> parse_response json_loads ''{"score": 87, "feedback": "Good traction"}''
       = Inr (JObject [(''score'', JInt 87), (''feedback'', JString ''Good traction'')])\<close>
proof -
  have f: \<open>fenced [] ''\<newline>'' ''{"score": 87, "feedback": "Good traction"}'' ''\<newline>'' '' ''
     = ''```json\<newline>{"score": 87, "feedback": "Good traction"}\<newline>``` ''\<close>
    by (simp add: fenced_def)
  have w: "\<forall>c\<in>set ([] @ ''\<newline>'' @ ''\<newline>'' @ '' ''). isspace c"
    by (simp add: isspace_def)
  have b: \<open>braced (strip ''{"score": 87, "feedback": "Good traction"}'')\<close>
    by code_simp
  have l: \<open>json_loads (strip ''{"score": 87, "feedback": "Good traction"}'')
     = Inr (JObject [(''score'', JInt 87), (''feedback'', JString ''Good traction'')])\<close>
    by code_simp
  from C6_fence_same_result [where loads = json_loads, OF w b l] f
  show ?thesis by simp
qed

text \<open>
  For well-formed JSON that is not an object the two results differ: the text [1] is
  valid JSON, but it is not delimited by braces, so the fallback embeds the raw text,
  and the raw text of the wrapped response begins with the fence.
\<close>

theorem C6_counterexample:
  \<open>json_loads ''[1]'' = Inr (JArray [JInt 1])
   \<and> parse_response json_loads ''[1]''
       = Inr (JObject
           [(''score'', JInt 50),
            (''feedback'',
             JString ''Analysis could not be processed properly. Here's the raw response: [1]...'')])
   \<and> parse_response json_loads ''```json\<newline>[1]\<newline>```''
       = Inr (JObject
           [(''score'', JInt 50),
            (''feedback'',
             JString ''Analysis could not be processed properly. Here's the raw response: ```json\<newline>[1]\<newline>```...'')])
   \<and> parse_response json_loads ''```json\<newline>[1]\<newline>```'' \<noteq> parse_response json_loads ''[1]''\<close>
  by code_simp

subsection \<open>The score of a result\<close>

text \<open>
  C1, as the code has it. A result of interpretation is one of three: the value decoded
  by the direct JSON parse, returned without any check; a record whose score is the
  non-negative number denoted by the digits that the score pattern matched, with no
  upper bound; or a record with the default score 50. A result of \<open>analyze_component\<close>
  is the interpretation of the first text block of the reply to its request, with
  nothing reported, or the failure record with score 0.
\<close>

theorem C1_score_present:
  "(parse_response loads response = Inr r \<longrightarrow>
      (braced (json_candidate response) \<and> loads (json_candidate response) = Inr r)
      \<or> (\<exists>ds fb. score_match response = Some ds \<and> 0 \<le> decimal ds
            \<and> r = JObject [(''score'', JInt (decimal ds)), (''feedback'', JString fb)])
      \<or> (\<exists>fb. r = JObject [(''score'', JInt 50), (''feedback'', JString fb)]))
   \<and> (analyze_component create loads component content = (msgs, Inr r') \<longrightarrow>
        (\<exists>prompt reply rest.
            map_of BUSINESS_MODEL_CANVAS_PROMPTS component = Some prompt
            \<and> create (build_request prompt content) = Inr (reply # rest)
            \<and> parse_response loads reply = Inr r' \<and> msgs = [])
        \<or> r' = JObject
                 [(''score'', JInt 0),
                  (''feedback'',
                   JString (''Failed to analyze '' @ component @ ''. Please try again.''))])"
proof (intro conjI impI)
  assume "parse_response loads response = Inr r"
  from parse_response_cases [OF this]
  show "(braced (json_candidate response) \<and> loads (json_candidate response) = Inr r)
      \<or> (\<exists>ds fb. score_match response = Some ds \<and> 0 \<le> decimal ds
            \<and> r = JObject [(''score'', JInt (decimal ds)), (''feedback'', JString fb)])
      \<or> (\<exists>fb. r = JObject [(''score'', JInt 50), (''feedback'', JString fb)])"
  proof (elim disjE exE conjE)
    fix ds fb
    assume ds: "score_match response = Some ds"
      and r: "r = JObject [(''score'', JInt (int_of_digits ds)), (''feedback'', JString fb)]"
    have "0 \<le> decimal ds"
      using score_match_digits [OF ds] by (simp add: decimal_nonneg)
    with ds r show ?thesis by (auto simp: int_of_digits_decimal)
  qed auto
next
  assume a: "analyze_component create loads component content = (msgs, Inr r')"
  then obtain prompt where p: "map_of BUSINESS_MODEL_CANVAS_PROMPTS component = Some prompt"
    by (auto simp: analyze_component_def split: option.splits)
  show "(\<exists>prompt reply rest.
            map_of BUSINESS_MODEL_CANVAS_PROMPTS component = Some prompt
            \<and> create (build_request prompt content) = Inr (reply # rest)
            \<and> parse_response loads reply = Inr r' \<and> msgs = [])
        \<or> r' = JObject
                 [(''score'', JInt 0),
                  (''feedback'',
                   JString (''Failed to analyze '' @ component @ ''. Please try again.''))]"
  proof (cases "call_and_parse create loads prompt content")
    case (Inl e)
    with a p show ?thesis by (simp add: analyze_component_def)
  next
    case (Inr x)
    with a p have x: "x = r'" and m: "msgs = []" by (simp_all add: analyze_component_def)
    from Inr obtain reply rest where "create (build_request prompt content) = Inr (reply # rest)"
      and "parse_response loads reply = Inr x"
      by (auto simp: call_and_parse_def first_text_def split: sum.splits list.splits)
    with p x m show ?thesis by blast
  qed
qed

theorem C1_score_present_witness:
  \<open>parse_response json_loads ''My verdict: "score": 7 and "feedback": "Thin"''
     = Inr (JObject [(''score'', JInt 7), (''feedback'', JString ''Thin'')])
   \<and> (\<exists>ds. score_match ''My verdict: "score": 7 and "feedback": "Thin"'' = Some ds
         \<and> 0 \<le> decimal ds \<and> decimal ds = 7)
   \<and> parse_response json_loads ''I cannot rate this deck.''
       = Inr (JObject
           [(''score'', JInt 50),
            (''feedback'',
             JString ''Analysis could not be processed properly. Here's the raw response: I cannot rate this deck....'')])
   \<and> analyze_component (canned_client ''My verdict: "score": 7 and "feedback": "Thin"'')
        json_loads ''channels'' ''Our deck''
       = ([], Inr (JObject [(''score'', JInt 7), (''feedback'', JString ''Thin'')]))
   \<and> analyze_component timeout_client json_loads ''channels'' ''Our deck''
       = ([''Error analyzing channels: Request timed out.''],
          Inr (JObject [(''score'', JInt 0),
                        (''feedback'',
                         JString ''Failed to analyze channels. Please try again.'')]))
   \<and> (\<exists>prompt reply rest.
          map_of BUSINESS_MODEL_CANVAS_PROMPTS ''channels'' = Some prompt
          \<and> canned_client ''My verdict: "score": 7 and "feedback": "Thin"''
                (build_request prompt ''Our deck'') = Inr (reply # rest)
          \<and> parse_response json_loads reply
              = Inr (JObject [(''score'', JInt 7), (''feedback'', JString ''Thin'')]))\<close>
proof -
  let ?t = \<open>''My verdict: "score": 7 and "feedback": "Thin"''\<close>
  let ?r = "JObject [(''score'', JInt 7), (''feedback'', JString ''Thin'')]"
  have p: "parse_response json_loads ?t = Inr ?r"
    by code_simp
  have nb: "\<not> braced (json_candidate ?t)" by code_simp
  have q: \<open>parse_response json_loads ''I cannot rate this deck.''
       = Inr (JObject
           [(''score'', JInt 50),
            (''feedback'',
             JString ''Analysis could not be processed properly. Here's the raw response: I cannot rate this deck....'')])\<close>
    by code_simp
  have c: "analyze_component (canned_client ?t) json_loads ''channels'' ''Our deck''
       = ([], Inr ?r)"
    using p
    by (simp add: analyze_component_def BUSINESS_MODEL_CANVAS_PROMPTS_def call_and_parse_def
        canned_client_def first_text_def)
  have a: "analyze_component timeout_client json_loads ''channels'' ''Our deck''
       = ([''Error analyzing channels: Request timed out.''],
          Inr (JObject [(''score'', JInt 0),
                        (''feedback'',
                         JString ''Failed to analyze channels. Please try again.'')]))"
    by (simp add: analyze_component_def BUSINESS_MODEL_CANVAS_PROMPTS_def call_and_parse_def
        timeout_client_def)
  note i = C1_score_present [where loads = json_loads and create = "canned_client ?t"
      and response = ?t and r = ?r
      and component = "''channels''" and content = "''Our deck''"
      and msgs = "[]" and r' = ?r]
  from i p nb have m: "\<exists>ds. score_match ?t = Some ds \<and> 0 \<le> decimal ds \<and> decimal ds = 7"
    by auto
  from i c have t: "\<exists>prompt reply rest.
          map_of BUSINESS_MODEL_CANVAS_PROMPTS ''channels'' = Some prompt
          \<and> canned_client ?t (build_request prompt ''Our deck'') = Inr (reply # rest)
          \<and> parse_response json_loads reply = Inr ?r"
    by auto
  from p m q c a t show ?thesis by (intro conjI)
qed

text \<open>
  A score of 999 found by the pattern is returned as it is, and a decoded object with no
  score is returned with no score: the score is neither always in range nor always
  present.
\<close>

theorem C1_counterexample:
  \<open>parse_response json_loads ''Overall "score": 999 with "feedback": "great"''
     = Inr (JObject [(''score'', JInt 999), (''feedback'', JString ''great'')])
   \<and> \<not> score_in_range (JObject [(''score'', JInt 999), (''feedback'', JString ''great'')])
   \<and> analyze_component (canned_client ''{"feedback": "no score at all"}'') json_loads
        ''overview'' ''Our deck''
       = ([], Inr (JObject [(''feedback'', JString ''no score at all'')]))
   \<and> \<not> score_in_range (JObject [(''feedback'', JString ''no score at all'')])\<close>
proof (intro conjI)
  show \<open>parse_response json_loads ''Overall "score": 999 with "feedback": "great"''
     = Inr (JObject [(''score'', JInt 999), (''feedback'', JString ''great'')])\<close>
    by code_simp
  show "\<not> score_in_range (JObject [(''score'', JInt 999), (''feedback'', JString ''great'')])"
    by (simp add: score_in_range_def)
  have \<open>parse_response json_loads ''{"feedback": "no score at all"}''
     = Inr (JObject [(''feedback'', JString ''no score at all'')])\<close>
    by code_simp
  then show \<open>analyze_component (canned_client ''{"feedback": "no score at all"}'') json_loads
        ''overview'' ''Our deck''
       = ([], Inr (JObject [(''feedback'', JString ''no score at all'')]))\<close>
    by (simp add: analyze_component_def BUSINESS_MODEL_CANVAS_PROMPTS_def call_and_parse_def
        canned_client_def first_text_def)
  show "\<not> score_in_range (JObject [(''feedback'', JString ''no score at all'')])"
    by (simp add: score_in_range_def)
qed

end
